theory Spec2Isabelle
  imports Main "HOL-Library.AList"
begin

section \<open>Values, errors and external collaborators\<close>

text \<open>
  The screen language AST of \<^verbatim>\<open>renpy/sl2/slast.py\<close>. Python source text of an expression
  or statement is a string; Python values are the datatype \<open>pyval\<close>. Dictionaries with
  string keys (scopes, keyword sets) are association lists read with \<open>map_of\<close> and
  written with \<open>AList.update\<close>.
\<close>

type_synonym source = string

datatype pyval =
    VNone
  | VBool bool
  | VInt int
  | VStr string
  | VList "pyval list"
  | VTuple "pyval list"
  | VDict "(string \<times> pyval) list"
  | VContext "(string \<times> pyval) list" string
  | VObject string

text \<open>
  \<open>VContext scope style_prefix\<close> is an \<^verbatim>\<open>SLContext\<close> object handed to a construction
  function (its scope and style prefix); \<open>VObject\<close> is any other opaque object (a style handle,
  a transform function).
\<close>

type_synonym scope = "(string \<times> pyval) list"
type_synonym kwargs = "(string \<times> pyval) list"

text \<open>
  The exceptions a call can end with: one raised by a collaborator (\<open>PyError\<close>), the
  ones Python raises for a missing attribute, an operation on a value of the wrong type
  and a pop from an empty list, and the \<^verbatim>\<open>Exception\<close> that \<^verbatim>\<open>SLNode.execute\<close> raises.
\<close>

datatype error =
    PyError string
  | AttributeError string
  | TypeError string
  | IndexError string
  | NotImplemented string

text \<open>
  The nodes of Python's \<^verbatim>\<open>ast\<close> module that this file handles: the node \<^verbatim>\<open>py_compile\<close>
  returns for a source expression, and the nodes \<^verbatim>\<open>prepare\<close> builds itself.
\<close>

datatype ast =
    ast_Parsed source
  | ast_Num int
  | ast_Str string
  | ast_Tuple "ast list"
  | ast_Dict "ast list" "ast list"

datatype bytecode = Code ast

text \<open>The execution context (\<^verbatim>\<open>class SLContext\<close>); \<open>'w\<close> is the type of UI elements.\<close>

record 'w SLContext =
  scope :: scope
  children :: "'w list"
  keywords_dict :: kwargs
  style_prefix :: string

definition SLContext_init :: "'w SLContext option \<Rightarrow> 'w SLContext" where
  "SLContext_init parent =
     (case parent of
        Some p \<Rightarrow> \<lparr>scope = scope p, children = children p, keywords_dict = keywords_dict p,
                   style_prefix = style_prefix p\<rparr>
      | None \<Rightarrow> \<lparr>scope = [], children = [], keywords_dict = [], style_prefix = ''''\<rparr>)"

text \<open>
  The state outside this module that \<^verbatim>\<open>execute\<close> touches:
  \<^verbatim>\<open>renpy.ui.screen.widget_properties\<close>, \<^verbatim>\<open>renpy.ui.screen.widgets\<close> and
  \<^verbatim>\<open>renpy.ui.imagemap_stack\<close>.
\<close>

record 'w ui =
  widget_properties :: "(pyval \<times> kwargs) list"
  widgets :: "(pyval \<times> 'w) list"
  imagemap_stack :: "pyval list"

text \<open>
  The functions this module imports or is handed, taken as parameters:
  \<^verbatim>\<open>py_compile\<close> (\<open>syntax_error\<close> tells whether it raises), \<^verbatim>\<open>is_constant\<close>,
  the evaluation of a parsed expression by \<^verbatim>\<open>py_eval_bytecode\<close> with the \<^verbatim>\<open>globals\<close> and
  \<^verbatim>\<open>locals\<close> arguments the call site passes (\<open>None\<close> when it passes none),
  \<^verbatim>\<open>py_exec_bytecode\<close> on a scope, \<^verbatim>\<open>renpy.style.get_style\<close>, the construction function
  of a displayable (named by a string), the \<^verbatim>\<open>add\<close> method of a UI element and the call
  of a transform.
\<close>

record 'w env =
  syntax_error :: "source \<Rightarrow> error option"
  is_constant :: "ast \<Rightarrow> bool"
  eval_parsed :: "source \<Rightarrow> scope option \<Rightarrow> scope option \<Rightarrow> error + pyval"
  py_exec_bytecode :: "source \<Rightarrow> scope \<Rightarrow> error + scope"
  get_style :: "string \<Rightarrow> error + pyval"
  displayable :: "string \<Rightarrow> pyval list \<Rightarrow> kwargs \<Rightarrow> 'w ui \<Rightarrow> error + 'w \<times> 'w ui"
  add :: "'w \<Rightarrow> 'w \<Rightarrow> error + 'w"
  transform :: "pyval \<Rightarrow> 'w \<Rightarrow> error + 'w"

text \<open>
  \<^verbatim>\<open>py_compile(expr, 'eval', ast_node=True)\<close>: the exception of the compiler, or the
  node of the parsed expression.
\<close>

definition py_compile :: "'w env \<Rightarrow> source \<Rightarrow> error + ast" where
  "py_compile env src =
     (case syntax_error env src of Some e \<Rightarrow> Inl e | None \<Rightarrow> Inr (ast_Parsed src))"

text \<open>\<^verbatim>\<open>compile_expr\<close> wraps the node in an expression and compiles it.\<close>

definition compile_expr :: "ast \<Rightarrow> bytecode" where
  "compile_expr node = Code node"

text \<open>
  The value of compiled code in the namespaces given. A parsed expression is evaluated by
  the parameter. The nodes \<^verbatim>\<open>prepare\<close> builds are evaluated as Python does: a number
  and a string are their value, a tuple evaluates its elements from left to right, a
  dictionary evaluates its entries in order and a later entry wins over an earlier one
  with the same key (keys are strings here); the first exception ends the evaluation.
\<close>

fun dict_of :: "pyval list \<Rightarrow> pyval list \<Rightarrow> error + kwargs" where
  "dict_of [] vs = Inr []"
| "dict_of (k # ks) [] = Inr []"
| "dict_of (k # ks) (v # vs) =
     (case k of
        VStr s \<Rightarrow> (case dict_of ks vs of Inl e \<Rightarrow> Inl e
                    | Inr d \<Rightarrow> Inr (AList.merge [(s, v)] d))
      | _ \<Rightarrow> Inl (TypeError ''dict key''))"

fun eval_ast :: "'w env \<Rightarrow> ast \<Rightarrow> scope option \<Rightarrow> scope option \<Rightarrow> error + pyval"
  and eval_asts :: "'w env \<Rightarrow> ast list \<Rightarrow> scope option \<Rightarrow> scope option \<Rightarrow> error + pyval list"
where
  "eval_ast env (ast_Parsed src) g l = eval_parsed env src g l"
| "eval_ast env (ast_Num n) g l = Inr (VInt n)"
| "eval_ast env (ast_Str s) g l = Inr (VStr s)"
| "eval_ast env (ast_Tuple elts) g l =
     (case eval_asts env elts g l of Inl e \<Rightarrow> Inl e | Inr vs \<Rightarrow> Inr (VTuple vs))"
| "eval_ast env (ast_Dict keys vals) g l =
     (case eval_asts env keys g l of Inl e \<Rightarrow> Inl e
      | Inr ks \<Rightarrow>
        (case eval_asts env vals g l of Inl e \<Rightarrow> Inl e
         | Inr vs \<Rightarrow>
           (case dict_of ks vs of Inl e \<Rightarrow> Inl e | Inr d \<Rightarrow> Inr (VDict d))))"
| "eval_asts env [] g l = Inr []"
| "eval_asts env (a # as) g l =
     (case eval_ast env a g l of Inl e \<Rightarrow> Inl e
      | Inr v \<Rightarrow> (case eval_asts env as g l of Inl e \<Rightarrow> Inl e | Inr vs \<Rightarrow> Inr (v # vs)))"

definition py_eval_bytecode ::
  "'w env \<Rightarrow> bytecode \<Rightarrow> scope option \<Rightarrow> scope option \<Rightarrow> error + pyval" where
  "py_eval_bytecode env code globals locals =
     (case code of Code node \<Rightarrow> eval_ast env node globals locals)"


section \<open>Nodes\<close>

text \<open>
  The configuration of a displayable node, as \<^verbatim>\<open>SLDisplayable.__init__\<close> stores it
  (\<^verbatim>\<open>text_style\<close> is accepted and not stored). The construction function is named by a
  string and run by the \<open>displayable\<close> parameter.
\<close>

record dconfig =
  d_displayable :: string
  d_scope :: bool
  d_child_or_fixed :: bool
  d_style :: "string option"
  d_pass_context :: bool
  d_imagemap :: bool

text \<open>
  An entry of \<^verbatim>\<open>positional_values\<close>: a value, or the sentinel object
  \<^verbatim>\<open>use_expression\<close>, which the code recognises by identity.
\<close>

datatype slot = Constant pyval | use_expression

text \<open>
  \<^verbatim>\<open>SLBlock\<close> holds \<^verbatim>\<open>keyword\<close> and \<^verbatim>\<open>children\<close>, and after \<^verbatim>\<open>prepare\<close> the
  attributes \<^verbatim>\<open>keyword_values\<close> and \<^verbatim>\<open>keyword_exprs\<close> (the last component is \<open>None\<close>
  while they are not set). \<^verbatim>\<open>SLDisplayable\<close> and \<^verbatim>\<open>SLFor\<close> extend it. The attributes
  that \<^verbatim>\<open>prepare\<close> sets are the last component of each node: \<^verbatim>\<open>positional_values\<close>
  and \<^verbatim>\<open>positional_exprs\<close>; \<^verbatim>\<open>expression_value\<close> and \<^verbatim>\<open>expression_expr\<close>;
  \<^verbatim>\<open>expr\<close>. The list \<^verbatim>\<open>prepared_entries\<close> of an \<^verbatim>\<open>SLIf\<close> pairs a compiled
  condition with the very block object of \<^verbatim>\<open>entries\<close>, so it is kept as the list of
  compiled conditions, read together with the blocks of the entries. Only \<^verbatim>\<open>SLIf\<close> and
  \<^verbatim>\<open>SLPass\<close> run \<^verbatim>\<open>SLNode.__init__\<close> and so have a \<^verbatim>\<open>serial\<close> attribute.
\<close>

datatype block =
    Block "(string \<times> source) list" "node list" "(kwargs option \<times> bytecode option) option"
and node =
    SLBlock block
  | SLDisplayable block dconfig "source list" "(slot list option \<times> bytecode option) option"
  | SLIf int "(source option \<times> block) list" "bytecode option list option"
  | SLFor block string source "(pyval \<times> bytecode option) option"
  | SLPython source
  | SLPass int
  | SLDefault string source "bytecode option"

text \<open>
  The base class \<^verbatim>\<open>SLNode\<close>: \<^verbatim>\<open>prepare\<close> does nothing, \<^verbatim>\<open>keywords\<close> returns, and
  \<^verbatim>\<open>execute\<close> raises, naming the class. Every class of this file that inherits from it
  defines its own \<^verbatim>\<open>execute\<close>.
\<close>

definition SLNode_execute :: "string \<Rightarrow> error + 'a" where
  "SLNode_execute class_name = Inl (NotImplemented (''execute not implemented by '' @ class_name))"

subsection \<open>Construction\<close>

text \<open>
  The module-level counter \<^verbatim>\<open>serial\<close> is passed in and returned.
  \<^verbatim>\<open>SLNode.__init__\<close> increments it and stores it on the node.
\<close>

definition SLNode_init :: "int \<Rightarrow> int \<times> int" where
  "SLNode_init serial = (serial + 1, serial + 1)"

text \<open>
  The initialisers of the classes. \<^verbatim>\<open>SLBlock\<close> is declared \<^verbatim>\<open>class SLBlock(object)\<close>, so
  its \<^verbatim>\<open>super(SLBlock, self).__init__()\<close> is the initialiser of \<^verbatim>\<open>object\<close>, and so is
  the \<^verbatim>\<open>super(SLNode, self).__init__()\<close> of \<^verbatim>\<open>SLPython\<close>; \<^verbatim>\<open>SLDefault.__init__\<close> calls
  no other initialiser; \<^verbatim>\<open>SLIf\<close> calls the one of \<^verbatim>\<open>SLNode\<close> and \<^verbatim>\<open>SLPass\<close> inherits
  it. Each function takes the counter and returns the node with the counter.
\<close>

definition SLBlock_init :: "block" where
  "SLBlock_init = Block [] [] None"

definition new_SLBlock :: "int \<Rightarrow> node \<times> int" where
  "new_SLBlock serial = (SLBlock SLBlock_init, serial)"

definition new_SLDisplayable ::
  "string \<Rightarrow> bool \<Rightarrow> bool \<Rightarrow> string option \<Rightarrow> bool \<Rightarrow> bool \<Rightarrow> int \<Rightarrow> node \<times> int" where
  "new_SLDisplayable displayable_fn scope_flag child_or_fixed style pass_context imagemap serial =
     (SLDisplayable SLBlock_init
        \<lparr>d_displayable = displayable_fn, d_scope = scope_flag, d_child_or_fixed = child_or_fixed,
         d_style = style, d_pass_context = pass_context, d_imagemap = imagemap\<rparr> [] None,
      serial)"

definition new_SLIf :: "int \<Rightarrow> node \<times> int" where
  "new_SLIf serial = (case SLNode_init serial of (s, serial') \<Rightarrow> (SLIf s [] None, serial'))"

definition new_SLFor :: "string \<Rightarrow> source \<Rightarrow> int \<Rightarrow> node \<times> int" where
  "new_SLFor variable expression serial = (SLFor SLBlock_init variable expression None, serial)"

definition new_SLPython :: "source \<Rightarrow> int \<Rightarrow> node \<times> int" where
  "new_SLPython code serial = (SLPython code, serial)"

definition new_SLPass :: "int \<Rightarrow> node \<times> int" where
  "new_SLPass serial = (case SLNode_init serial of (s, serial') \<Rightarrow> (SLPass s, serial'))"

definition new_SLDefault :: "string \<Rightarrow> source \<Rightarrow> int \<Rightarrow> node \<times> int" where
  "new_SLDefault variable expression serial = (SLDefault variable expression None, serial)"

text \<open>The \<^verbatim>\<open>serial\<close> attribute of a node, \<open>None\<close> where the node has none.\<close>

fun serial_of :: "node \<Rightarrow> int option" where
  "serial_of (SLIf s entries prepared_entries) = Some s"
| "serial_of (SLPass s) = Some s"
| "serial_of n = None"

subsection \<open>prepare\<close>

text \<open>The loop of \<^verbatim>\<open>SLBlock.prepare\<close> over \<^verbatim>\<open>self.keyword\<close>.\<close>

fun prepare_keyword ::
  "'w env \<Rightarrow> (string \<times> source) list \<Rightarrow> kwargs \<times> ast list \<times> ast list
     \<Rightarrow> error + kwargs \<times> ast list \<times> ast list" where
  "prepare_keyword env [] acc = Inr acc"
| "prepare_keyword env ((k, expr) # rest) (keyword_values, keyword_keys, keyword_exprs) =
     (case py_compile env expr of
        Inl e \<Rightarrow> Inl e
      | Inr node \<Rightarrow>
          if is_constant env node then
            (case py_eval_bytecode env (compile_expr node) None None of
               Inl e \<Rightarrow> Inl e
             | Inr v \<Rightarrow>
                 prepare_keyword env rest
                   (AList.update k v keyword_values, keyword_keys, keyword_exprs))
          else
            prepare_keyword env rest
              (keyword_values, keyword_keys @ [ast_Str k], keyword_exprs @ [node]))"

text \<open>The loop of \<^verbatim>\<open>SLDisplayable.prepare\<close> over \<^verbatim>\<open>self.positional\<close>.\<close>

fun prepare_positional ::
  "'w env \<Rightarrow> source list \<Rightarrow> ast list \<times> slot list \<times> bool \<times> bool
     \<Rightarrow> error + ast list \<times> slot list \<times> bool \<times> bool" where
  "prepare_positional env [] acc = Inr acc"
| "prepare_positional env (a # rest) (exprs, values, has_exprs, has_values) =
     (case py_compile env a of
        Inl e \<Rightarrow> Inl e
      | Inr node \<Rightarrow>
          if is_constant env node then
            (case py_eval_bytecode env (compile_expr node) None None of
               Inl e \<Rightarrow> Inl e
             | Inr v \<Rightarrow>
                 prepare_positional env rest
                   (exprs @ [ast_Num 0], values @ [Constant v], has_exprs, True))
          else
            prepare_positional env rest
              (exprs @ [node], values @ [use_expression], True, has_values))"

text \<open>\<^verbatim>\<open>py_compile(cond, 'eval')\<close>, which returns bytecode.\<close>

definition py_compile_eval :: "'w env \<Rightarrow> source \<Rightarrow> error + bytecode" where
  "py_compile_eval env src =
     (case py_compile env src of Inl e \<Rightarrow> Inl e | Inr node \<Rightarrow> Inr (compile_expr node))"

fun prepare :: "'w env \<Rightarrow> node \<Rightarrow> error + node"
  and SLBlock_prepare :: "'w env \<Rightarrow> block \<Rightarrow> error + block"
  and prepare_children :: "'w env \<Rightarrow> node list \<Rightarrow> error + node list"
  and prepare_entries ::
    "'w env \<Rightarrow> (source option \<times> block) list
       \<Rightarrow> error + (source option \<times> block) list \<times> bytecode option list"
where
  "SLBlock_prepare env (Block keyword cs prepared) =
     (case prepare_children env cs of
        Inl e \<Rightarrow> Inl e
      | Inr cs' \<Rightarrow>
          (case prepare_keyword env keyword ([], [], []) of
             Inl e \<Rightarrow> Inl e
           | Inr (keyword_values, keyword_keys, keyword_exprs) \<Rightarrow>
               Inr (Block keyword cs'
                 (Some (if keyword_values \<noteq> [] then Some keyword_values else None,
                        if keyword_keys \<noteq> []
                        then Some (compile_expr (ast_Dict keyword_keys keyword_exprs))
                        else None)))))"
| "prepare_children env [] = Inr []"
| "prepare_children env (i # rest) =
     (case prepare env i of
        Inl e \<Rightarrow> Inl e
      | Inr i' \<Rightarrow>
          (case prepare_children env rest of Inl e \<Rightarrow> Inl e | Inr rest' \<Rightarrow> Inr (i' # rest')))"
| "prepare_entries env [] = Inr ([], [])"
| "prepare_entries env ((cond, blk) # rest) =
     (case (case cond of None \<Rightarrow> Inr None
            | Some src \<Rightarrow>
                (case py_compile_eval env src of Inl e \<Rightarrow> Inl e | Inr c \<Rightarrow> Inr (Some c))) of
        Inl e \<Rightarrow> Inl e
      | Inr c \<Rightarrow>
          (case SLBlock_prepare env blk of
             Inl e \<Rightarrow> Inl e
           | Inr blk' \<Rightarrow>
               (case prepare_entries env rest of
                  Inl e \<Rightarrow> Inl e
                | Inr (entries', conds) \<Rightarrow> Inr ((cond, blk') # entries', c # conds))))"
| "prepare env (SLBlock blk) =
     (case SLBlock_prepare env blk of Inl e \<Rightarrow> Inl e | Inr blk' \<Rightarrow> Inr (SLBlock blk'))"
| "prepare env (SLDisplayable blk cfg positional prepared) =
     (case SLBlock_prepare env blk of
        Inl e \<Rightarrow> Inl e
      | Inr blk' \<Rightarrow>
          (case prepare_positional env positional ([], [], False, False) of
             Inl e \<Rightarrow> Inl e
           | Inr (exprs, values, has_exprs, has_values) \<Rightarrow>
               Inr (SLDisplayable blk' cfg positional
                 (Some (if has_values then Some values else None,
                        if has_exprs then Some (compile_expr (ast_Tuple exprs)) else None)))))"
| "prepare env (SLIf serial entries prepared_entries) =
     (case prepare_entries env entries of
        Inl e \<Rightarrow> Inl e
      | Inr (entries', conds) \<Rightarrow> Inr (SLIf serial entries' (Some conds)))"
| "prepare env (SLFor blk variable expression prepared) =
     (case py_compile env expression of
        Inl e \<Rightarrow> Inl e
      | Inr node \<Rightarrow>
          (case (if is_constant env node
                 then (case py_eval_bytecode env (compile_expr node) None None of
                         Inl e \<Rightarrow> Inl e | Inr v \<Rightarrow> Inr (v, None))
                 else Inr (VNone, Some (compile_expr node))) of
             Inl e \<Rightarrow> Inl e
           | Inr p \<Rightarrow>
               (case SLBlock_prepare env blk of
                  Inl e \<Rightarrow> Inl e
                | Inr blk' \<Rightarrow> Inr (SLFor blk' variable expression (Some p)))))"
| "prepare env (SLPython code) = Inr (SLPython code)"
| "prepare env (SLPass serial) = Inr (SLPass serial)"
| "prepare env (SLDefault variable expression expr) =
     (case py_compile_eval env expression of
        Inl e \<Rightarrow> Inl e
      | Inr c \<Rightarrow> Inr (SLDefault variable expression (Some c)))"

section \<open>Python operations used by the traversals\<close>

text \<open>The truth value Python gives a value in a condition.\<close>

fun truthy :: "pyval \<Rightarrow> bool" where
  "truthy VNone = False"
| "truthy (VBool b) = b"
| "truthy (VInt i) = (i \<noteq> 0)"
| "truthy (VStr s) = (s \<noteq> [])"
| "truthy (VList xs) = (xs \<noteq> [])"
| "truthy (VTuple xs) = (xs \<noteq> [])"
| "truthy (VDict d) = (d \<noteq> [])"
| "truthy (VContext sc p) = True"
| "truthy (VObject n) = True"

text \<open>
  The elements a \<^verbatim>\<open>for\<close> loop, \<^verbatim>\<open>zip\<close> or argument unpacking takes from a value;
  a value that cannot be iterated raises \<^verbatim>\<open>TypeError\<close>.
\<close>

fun iter_values :: "pyval \<Rightarrow> error + pyval list" where
  "iter_values (VList xs) = Inr xs"
| "iter_values (VTuple xs) = Inr xs"
| "iter_values (VStr s) = Inr (map (\<lambda>c. VStr [c]) s)"
| "iter_values (VDict d) = Inr (map (\<lambda>kv. VStr (fst kv)) d)"
| "iter_values v = Inl (TypeError ''object is not iterable'')"

text \<open>Lists and dictionaries cannot be dictionary keys.\<close>

fun hashable :: "pyval \<Rightarrow> bool" where
  "hashable (VList xs) = False"
| "hashable (VDict d) = False"
| "hashable (VTuple xs) = list_all hashable xs"
| "hashable v = True"

text \<open>\<^verbatim>\<open>d.update(other)\<close>: the bindings of \<open>other\<close> win.\<close>

definition dict_update :: "kwargs \<Rightarrow> kwargs \<Rightarrow> kwargs" where
  "dict_update d other = AList.merge d other"

text \<open>\<^verbatim>\<open>d.pop(k, default)\<close>: the value popped and the dictionary left.\<close>

definition dict_pop :: "kwargs \<Rightarrow> string \<Rightarrow> pyval option \<times> kwargs" where
  "dict_pop d k = (map_of d k, AList.delete k d)"

text \<open>
  The test \<^verbatim>\<open>cond is None or py_eval_bytecode(cond, locals=context.scope)\<close> of
  \<^verbatim>\<open>SLIf\<close>.
\<close>

definition condition_holds :: "'w env \<Rightarrow> bytecode option \<Rightarrow> scope \<Rightarrow> error + bool" where
  "condition_holds env cond sc =
     (case cond of
        None \<Rightarrow> Inr True
      | Some code \<Rightarrow>
          (case py_eval_bytecode env code None (Some sc) of
             Inl e \<Rightarrow> Inl e
           | Inr v \<Rightarrow> Inr (truthy v)))"

section \<open>The keywords traversal\<close>

text \<open>
  \<^verbatim>\<open>SLBlock.keywords\<close>, up to the loop over the children: the constant keywords are
  merged, then the dynamic ones; \<^verbatim>\<open>py_eval_bytecode(keyword_exprs)\<close> is called with no
  namespace argument.
\<close>

definition update_keywords ::
  "'w env \<Rightarrow> kwargs option \<times> bytecode option \<Rightarrow> 'w SLContext \<Rightarrow> error + 'w SLContext" where
  "update_keywords env prepared context =
     (case prepared of (keyword_values, keyword_exprs) \<Rightarrow>
        (let context1 =
               (case keyword_values of
                  None \<Rightarrow> context
                | Some kv \<Rightarrow> context\<lparr>keywords_dict := dict_update (keywords_dict context) kv\<rparr>)
         in case keyword_exprs of
              None \<Rightarrow> Inr context1
            | Some code \<Rightarrow>
                (case py_eval_bytecode env code None None of
                   Inl e \<Rightarrow> Inl e
                 | Inr (VDict d) \<Rightarrow>
                     Inr (context1\<lparr>keywords_dict := dict_update (keywords_dict context1) d\<rparr>)
                 | Inr v \<Rightarrow> Inl (TypeError ''update''))))"

text \<open>
  The \<^verbatim>\<open>style_group\<close> step: the key is popped; a string gives the prefix, \<^verbatim>\<open>None\<close>
  resets it, and another value makes \<^verbatim>\<open>style_group + "_"\<close> raise.
\<close>

definition pop_style_group :: "'w SLContext \<Rightarrow> error + 'w SLContext" where
  "pop_style_group context =
     (case dict_pop (keywords_dict context) ''style_group'' of
        (None, rest) \<Rightarrow> Inr context
      | (Some style_group, rest) \<Rightarrow>
          (case style_group of
             VNone \<Rightarrow> Inr (context\<lparr>keywords_dict := rest, style_prefix := []\<rparr>)
           | VStr g \<Rightarrow> Inr (context\<lparr>keywords_dict := rest, style_prefix := g @ ''_''\<rparr>)
           | _ \<Rightarrow> Inl (TypeError ''style_group'')))"

text \<open>
  \<^verbatim>\<open>keywords\<close> of each node class (\<open>keywords_node\<close>). \<^verbatim>\<open>SLDisplayable\<close> inherits \<^verbatim>\<open>SLBlock.keywords\<close>;
  \<^verbatim>\<open>SLFor\<close> overrides it to return; \<^verbatim>\<open>SLPython\<close>, \<^verbatim>\<open>SLPass\<close> and
  \<^verbatim>\<open>SLDefault\<close> inherit the one of \<^verbatim>\<open>SLNode\<close>, which returns. \<open>keywords_entries\<close> is
  the loop of \<^verbatim>\<open>SLIf.keywords\<close> over \<^verbatim>\<open>prepared_entries\<close>.
\<close>

fun keywords_node :: "'w env \<Rightarrow> node \<Rightarrow> 'w SLContext \<Rightarrow> error + 'w SLContext"
  and SLBlock_keywords :: "'w env \<Rightarrow> block \<Rightarrow> 'w SLContext \<Rightarrow> error + 'w SLContext"
  and keywords_children :: "'w env \<Rightarrow> node list \<Rightarrow> 'w SLContext \<Rightarrow> error + 'w SLContext"
  and keywords_entries ::
    "'w env \<Rightarrow> bytecode option list \<Rightarrow> (source option \<times> block) list \<Rightarrow> 'w SLContext
       \<Rightarrow> error + 'w SLContext"
where
  "SLBlock_keywords env (Block keyword cs prepared) context =
     (case prepared of
        None \<Rightarrow> Inl (AttributeError ''keyword_values'')
      | Some p \<Rightarrow>
          (case update_keywords env p context of
             Inl e \<Rightarrow> Inl e
           | Inr context1 \<Rightarrow>
               (case pop_style_group context1 of
                  Inl e \<Rightarrow> Inl e
                | Inr context2 \<Rightarrow> keywords_children env cs context2)))"
| "keywords_children env [] context = Inr context"
| "keywords_children env (i # rest) context =
     (case keywords_node env i context of
        Inl e \<Rightarrow> Inl e
      | Inr context1 \<Rightarrow> keywords_children env rest context1)"
| "keywords_entries env [] entries context = Inr context"
| "keywords_entries env (cond # conds) [] context = Inr context"
| "keywords_entries env (cond # conds) ((src, blk) # entries) context =
     (case condition_holds env cond (scope context) of
        Inl e \<Rightarrow> Inl e
      | Inr b \<Rightarrow>
          if b then SLBlock_keywords env blk context
          else keywords_entries env conds entries context)"
| "keywords_node env (SLBlock blk) context = SLBlock_keywords env blk context"
| "keywords_node env (SLDisplayable blk cfg positional prepared) context =
     SLBlock_keywords env blk context"
| "keywords_node env (SLIf serial entries prepared_entries) context =
     (case prepared_entries of
        None \<Rightarrow> Inl (AttributeError ''prepared_entries'')
      | Some conds \<Rightarrow> keywords_entries env conds entries context)"
| "keywords_node env (SLFor blk variable expression prepared) context = Inr context"
| "keywords_node env (SLPython code) context = Inr context"
| "keywords_node env (SLPass serial) context = Inr context"
| "keywords_node env (SLDefault variable expression expr) context = Inr context"

section \<open>The execute traversal\<close>

subsection \<open>\<^verbatim>\<open>SLDisplayable.execute\<close>: the arguments of the construction call\<close>

text \<open>
  The local \<^verbatim>\<open>positional\<close> is a new list, the list object stored in
  \<^verbatim>\<open>self.positional_values\<close> itself, or the value the evaluation returned (a tuple).
\<close>

datatype arglist = ListObject "pyval list" | StoredList "slot list" | ValueObject pyval

fun slot_value :: "slot \<Rightarrow> pyval" where
  "slot_value (Constant v) = v"
| "slot_value use_expression = VObject ''use_expression''"

text \<open>
  The four branches on \<^verbatim>\<open>positional_values\<close> and \<^verbatim>\<open>positional_exprs\<close>. The first
  passes the scope as the second positional argument of \<^verbatim>\<open>py_eval_bytecode\<close>
  (\<^verbatim>\<open>globals\<close>), the third as \<^verbatim>\<open>locals\<close>. An empty list is false in a condition.
\<close>

definition resolve_positional ::
  "'w env \<Rightarrow> slot list option \<Rightarrow> bytecode option \<Rightarrow> scope \<Rightarrow> error + arglist" where
  "resolve_positional env positional_values positional_exprs sc =
     (case positional_values of
        Some (a # pvs) \<Rightarrow>
          (case positional_exprs of
             Some code \<Rightarrow>
               (case py_eval_bytecode env code (Some sc) None of
                  Inl e \<Rightarrow> Inl e
                | Inr values \<Rightarrow>
                    (case iter_values values of
                       Inl e \<Rightarrow> Inl e
                     | Inr vs \<Rightarrow>
                         Inr (ListObject
                           (map (\<lambda>(a, b). case a of use_expression \<Rightarrow> b | Constant v \<Rightarrow> v)
                              (zip (a # pvs) vs)))))
           | None \<Rightarrow> Inr (StoredList (a # pvs)))
      | _ \<Rightarrow>
          (case positional_exprs of
             Some code \<Rightarrow>
               (case py_eval_bytecode env code None (Some sc) of
                  Inl e \<Rightarrow> Inl e
                | Inr values \<Rightarrow> Inr (ValueObject values))
           | None \<Rightarrow> Inr (ListObject [])))"

text \<open>\<^verbatim>\<open>positional.insert(0, ctx)\<close>: a tuple has no \<^verbatim>\<open>insert\<close>.\<close>

fun insert_first :: "pyval \<Rightarrow> arglist \<Rightarrow> error + arglist" where
  "insert_first c (ListObject xs) = Inr (ListObject (c # xs))"
| "insert_first c (StoredList pvs) = Inr (StoredList (Constant c # pvs))"
| "insert_first c (ValueObject (VList xs)) = Inr (ValueObject (VList (c # xs)))"
| "insert_first c (ValueObject v) = Inl (AttributeError ''insert'')"

text \<open>The values \<^verbatim>\<open>*positional\<close> passes.\<close>

fun unpack :: "arglist \<Rightarrow> error + pyval list" where
  "unpack (ListObject xs) = Inr xs"
| "unpack (StoredList pvs) = Inr (map slot_value pvs)"
| "unpack (ValueObject v) = iter_values v"

text \<open>What \<^verbatim>\<open>self.positional_values\<close> holds once \<^verbatim>\<open>positional\<close> has been changed.\<close>

fun stored_values :: "arglist \<Rightarrow> slot list option \<Rightarrow> slot list option" where
  "stored_values (StoredList pvs) old = Some pvs"
| "stored_values a old = old"

text \<open>
  \<^verbatim>\<open>ctx = SLContext(context)\<close> followed by the two assignments of new containers.
\<close>

definition derive_context :: "'w SLContext \<Rightarrow> 'w SLContext" where
  "derive_context context = (SLContext_init (Some context))\<lparr>keywords_dict := [], children := []\<rparr>"

text \<open>
  The \<^verbatim>\<open>style\<close> keyword: when the keywords have no \<^verbatim>\<open>style\<close> and \<^verbatim>\<open>self.style\<close> is
  a non-empty string, the style named by the prefix and \<^verbatim>\<open>self.style\<close> is looked up.
\<close>

definition style_keyword :: "'w env \<Rightarrow> dconfig \<Rightarrow> 'w SLContext \<Rightarrow> error + kwargs" where
  "style_keyword env cfg ctx =
     (case d_style cfg of
        Some (c # cs) \<Rightarrow>
          if map_of (keywords_dict ctx) ''style'' = None
          then (case get_style env (style_prefix ctx @ c # cs) of
                  Inl e \<Rightarrow> Inl e
                | Inr st \<Rightarrow> Inr (AList.update ''style'' st (keywords_dict ctx)))
          else Inr (keywords_dict ctx)
      | _ \<Rightarrow> Inr (keywords_dict ctx))"

text \<open>\<^verbatim>\<open>if self.scope: keywords["scope"] = ctx.scope\<close>.\<close>

definition scope_keyword :: "dconfig \<Rightarrow> 'w SLContext \<Rightarrow> kwargs \<Rightarrow> kwargs" where
  "scope_keyword cfg ctx kw =
     (if d_scope cfg then AList.update ''scope'' (VDict (scope ctx)) kw else kw)"

text \<open>
  \<^verbatim>\<open>widget_id = keywords.pop("id", None)\<close> and \<^verbatim>\<open>transform = keywords.pop("at", None)\<close>:
  the two values and the keywords left.
\<close>

definition pop_reserved :: "kwargs \<Rightarrow> pyval \<times> pyval \<times> kwargs" where
  "pop_reserved kw =
     (case dict_pop kw ''id'' of (id_value, kw1) \<Rightarrow>
      (case dict_pop kw1 ''at'' of (at_value, kw2) \<Rightarrow>
         (case id_value of None \<Rightarrow> VNone | Some v \<Rightarrow> v,
          case at_value of None \<Rightarrow> VNone | Some v \<Rightarrow> v,
          kw2)))"

text \<open>
  \<^verbatim>\<open>if widget_id in screen.widget_properties: keywords.update(...)\<close>; the membership test
  raises on a value that cannot be hashed.
\<close>

definition widget_overrides :: "'w ui \<Rightarrow> pyval \<Rightarrow> kwargs \<Rightarrow> error + kwargs" where
  "widget_overrides u widget_id kw =
     (if \<not> hashable widget_id then Inl (TypeError ''unhashable type'')
      else (case map_of (widget_properties u) widget_id of
              Some props \<Rightarrow> Inr (dict_update kw props)
            | None \<Rightarrow> Inr kw))"

text \<open>
  Everything \<^verbatim>\<open>SLDisplayable.execute\<close> does before it calls the construction function:
  the positional arguments, the derived context, the keywords traversal, the context
  argument, the \<^verbatim>\<open>style\<close> and \<^verbatim>\<open>scope\<close> keywords, the two pops and the widget
  properties. The dictionary \<^verbatim>\<open>keywords\<close> is \<^verbatim>\<open>ctx.keywords\<close>. The result holds the
  arguments of the call, the two popped values, the derived context and what
  \<^verbatim>\<open>self.positional_values\<close> holds now.
\<close>

record 'w call =
  call_positional :: "pyval list"
  call_keywords :: kwargs
  call_widget_id :: pyval
  call_transform :: pyval
  call_ctx :: "'w SLContext"
  call_stored :: "slot list option"

definition displayable_arguments ::
  "'w env \<Rightarrow> block \<Rightarrow> dconfig \<Rightarrow> slot list option \<times> bytecode option \<Rightarrow> 'w SLContext \<Rightarrow> 'w ui
     \<Rightarrow> error + 'w call" where
  "displayable_arguments env blk cfg prepared context u =
     (case prepared of (positional_values, positional_exprs) \<Rightarrow>
      (case resolve_positional env positional_values positional_exprs (scope context) of
         Inl e \<Rightarrow> Inl e
       | Inr positional \<Rightarrow>
      (case SLBlock_keywords env blk (derive_context context) of
         Inl e \<Rightarrow> Inl e
       | Inr ctx \<Rightarrow>
      (case (if d_pass_context cfg
             then insert_first (VContext (scope ctx) (style_prefix ctx)) positional
             else Inr positional) of
         Inl e \<Rightarrow> Inl e
       | Inr positional1 \<Rightarrow>
      (case style_keyword env cfg ctx of
         Inl e \<Rightarrow> Inl e
       | Inr keywords1 \<Rightarrow>
      (case pop_reserved (scope_keyword cfg ctx keywords1) of
         (widget_id, transform_fn, keywords2) \<Rightarrow>
      (case widget_overrides u widget_id keywords2 of
         Inl e \<Rightarrow> Inl e
       | Inr keywords3 \<Rightarrow>
      (case unpack positional1 of
         Inl e \<Rightarrow> Inl e
       | Inr args \<Rightarrow>
           Inr \<lparr>call_positional = args, call_keywords = keywords3,
                call_widget_id = widget_id, call_transform = transform_fn,
                call_ctx = ctx\<lparr>keywords_dict := keywords3\<rparr>,
                call_stored = stored_values positional1 positional_values\<rparr>))))))))"

subsection \<open>\<^verbatim>\<open>SLDisplayable.execute\<close>: after the children have run\<close>

text \<open>The loop \<^verbatim>\<open>for i in ctx.children: d.add(i)\<close>.\<close>

fun add_children :: "'w env \<Rightarrow> 'w \<Rightarrow> 'w list \<Rightarrow> error + 'w" where
  "add_children env d [] = Inr d"
| "add_children env d (i # rest) =
     (case add env d i of Inl e \<Rightarrow> Inl e | Inr d1 \<Rightarrow> add_children env d1 rest)"

text \<open>
  The children of the element are added, the widget is registered, the transform is
  applied, the element is appended to the children of the caller's context, and an
  imagemap pops the imagemap stack (\<^verbatim>\<open>list.pop()\<close> takes the last entry and raises on
  an empty list). The scope is the one object the caller and the derived context share.
\<close>

definition displayable_finish ::
  "'w env \<Rightarrow> dconfig \<Rightarrow> pyval \<Rightarrow> pyval \<Rightarrow> 'w \<Rightarrow> 'w SLContext \<Rightarrow> 'w SLContext \<Rightarrow> 'w ui
     \<Rightarrow> error + 'w SLContext \<times> 'w ui" where
  "displayable_finish env cfg widget_id transform_fn d context ctx u =
     (case add_children env d (children ctx) of
        Inl e \<Rightarrow> Inl e
      | Inr d1 \<Rightarrow>
     (let u1 = (if widget_id \<noteq> VNone then u\<lparr>widgets := AList.update widget_id d1 (widgets u)\<rparr>
                else u)
      in (case (if transform_fn \<noteq> VNone then transform env transform_fn d1 else Inr d1) of
            Inl e \<Rightarrow> Inl e
          | Inr d2 \<Rightarrow>
         (let context1 = context\<lparr>scope := scope ctx, children := children context @ [d2]\<rparr>
          in if d_imagemap cfg
             then (if imagemap_stack u1 = [] then Inl (IndexError ''pop from empty list'')
                   else Inr (context1, u1\<lparr>imagemap_stack := butlast (imagemap_stack u1)\<rparr>))
             else Inr (context1, u1)))))"

subsection \<open>\<^verbatim>\<open>execute\<close> of each node class\<close>

text \<open>
  The state a call of \<^verbatim>\<open>execute\<close> works on is the caller's context and the external
  state. A call also returns the node, since \<^verbatim>\<open>SLDisplayable.execute\<close> can change the
  list stored in \<^verbatim>\<open>positional_values\<close>. \<open>execute_children\<close> is the loop of
  \<^verbatim>\<open>SLBlock.execute\<close>, \<open>execute_entries\<close> the loop of \<^verbatim>\<open>SLIf.execute\<close> over
  \<^verbatim>\<open>prepared_entries\<close> (whose blocks are \<^verbatim>\<open>SLBlock\<close> objects) and \<open>execute_for\<close> the
  loop of \<^verbatim>\<open>SLFor.execute\<close> over the values.
\<close>

type_synonym 'w state = "'w SLContext \<times> 'w ui"

function (sequential)
  execute :: "'w env \<Rightarrow> node \<Rightarrow> 'w state \<Rightarrow> error + node \<times> 'w state"
  and execute_children :: "'w env \<Rightarrow> node list \<Rightarrow> 'w state \<Rightarrow> error + node list \<times> 'w state"
  and execute_entries ::
    "'w env \<Rightarrow> bytecode option list \<Rightarrow> (source option \<times> block) list \<Rightarrow> 'w state
       \<Rightarrow> error + (source option \<times> block) list \<times> 'w state"
  and execute_for ::
    "'w env \<Rightarrow> string \<Rightarrow> node list \<Rightarrow> pyval list \<Rightarrow> 'w state \<Rightarrow> error + node list \<times> 'w state"
where
  "execute_children env [] st = Inr ([], st)"
| "execute_children env (i # rest) st =
     (case execute env i st of
        Inl e \<Rightarrow> Inl e
      | Inr (i1, st1) \<Rightarrow>
          (case execute_children env rest st1 of
             Inl e \<Rightarrow> Inl e
           | Inr (rest1, st2) \<Rightarrow> Inr (i1 # rest1, st2)))"
| "execute_entries env [] entries st = Inr (entries, st)"
| "execute_entries env (cond # conds) [] st = Inr ([], st)"
| "execute_entries env (cond # conds) ((src, Block keyword cs prepared) # entries) st =
     (case condition_holds env cond (scope (fst st)) of
        Inl e \<Rightarrow> Inl e
      | Inr b \<Rightarrow>
          if b then
            (case execute_children env cs st of
               Inl e \<Rightarrow> Inl e
             | Inr (cs1, st1) \<Rightarrow> Inr ((src, Block keyword cs1 prepared) # entries, st1))
          else
            (case execute_entries env conds entries st of
               Inl e \<Rightarrow> Inl e
             | Inr (entries1, st1) \<Rightarrow> Inr ((src, Block keyword cs prepared) # entries1, st1)))"
| "execute_for env variable cs [] st = Inr (cs, st)"
| "execute_for env variable cs (i # rest) (context, u) =
     (case execute_children env cs (context\<lparr>scope := AList.update variable i (scope context)\<rparr>, u) of
        Inl e \<Rightarrow> Inl e
      | Inr (cs1, st1) \<Rightarrow> execute_for env variable cs1 rest st1)"
| "execute env (SLBlock (Block keyword cs prepared)) st =
     (case execute_children env cs st of
        Inl e \<Rightarrow> Inl e
      | Inr (cs1, st1) \<Rightarrow> Inr (SLBlock (Block keyword cs1 prepared), st1))"
| "execute env (SLDisplayable (Block keyword cs kprepared) cfg positional prepared) (context, u) =
     (case prepared of
        None \<Rightarrow> Inl (AttributeError ''positional_values'')
      | Some p \<Rightarrow>
     (case displayable_arguments env (Block keyword cs kprepared) cfg p context u of
        Inl e \<Rightarrow> Inl e
      | Inr c \<Rightarrow>
     (case displayable env (d_displayable cfg) (call_positional c) (call_keywords c) u of
        Inl e \<Rightarrow> Inl e
      | Inr (d, u1) \<Rightarrow>
     (case execute_children env cs (call_ctx c, u1) of
        Inl e \<Rightarrow> Inl e
      | Inr (cs1, (ctx1, u2)) \<Rightarrow>
     (case displayable_finish env cfg (call_widget_id c) (call_transform c) d context ctx1 u2 of
        Inl e \<Rightarrow> Inl e
      | Inr st1 \<Rightarrow>
          Inr (SLDisplayable (Block keyword cs1 kprepared) cfg positional
                 (Some (call_stored c, snd p)), st1))))))"
| "execute env (SLIf serial entries prepared_entries) st =
     (case prepared_entries of
        None \<Rightarrow> Inl (AttributeError ''prepared_entries'')
      | Some conds \<Rightarrow>
          (case execute_entries env conds entries st of
             Inl e \<Rightarrow> Inl e
           | Inr (entries1, st1) \<Rightarrow> Inr (SLIf serial entries1 prepared_entries, st1)))"
| "execute env (SLFor (Block keyword cs kprepared) variable expression prepared) (context, u) =
     (case prepared of
        None \<Rightarrow> Inl (AttributeError ''expression_expr'')
      | Some (expression_value, expression_expr) \<Rightarrow>
     (case (case expression_expr of
              Some expr \<Rightarrow> py_eval_bytecode env expr None (Some (scope context))
            | None \<Rightarrow> Inr expression_value) of
        Inl e \<Rightarrow> Inl e
      | Inr v \<Rightarrow>
     (case iter_values v of
        Inl e \<Rightarrow> Inl e
      | Inr vs \<Rightarrow>
     (case execute_for env variable cs vs (context, u) of
        Inl e \<Rightarrow> Inl e
      | Inr (cs1, st1) \<Rightarrow>
          Inr (SLFor (Block keyword cs1 kprepared) variable expression prepared, st1)))))"
| "execute env (SLPython code) (context, u) =
     (case py_exec_bytecode env code (scope context) of
        Inl e \<Rightarrow> Inl e
      | Inr sc \<Rightarrow> Inr (SLPython code, (context\<lparr>scope := sc\<rparr>, u)))"
| "execute env (SLPass serial) st = Inr (SLPass serial, st)"
| "execute env (SLDefault variable expression expr) (context, u) =
     (if map_of (scope context) variable \<noteq> None then Inr (SLDefault variable expression expr, (context, u))
      else (case expr of
              None \<Rightarrow> Inl (AttributeError ''expr'')
            | Some code \<Rightarrow>
                (case py_eval_bytecode env code None (Some (scope context)) of
                   Inl e \<Rightarrow> Inl e
                 | Inr v \<Rightarrow>
                     Inr (SLDefault variable expression expr,
                          (context\<lparr>scope := AList.update variable v (scope context)\<rparr>, u)))))"
  by pat_completeness auto


text \<open>The number of nodes of a tree, for the termination of \<open>execute\<close>.\<close>

fun nweight :: "node \<Rightarrow> nat"
  and bweight :: "block \<Rightarrow> nat"
  and csweight :: "node list \<Rightarrow> nat"
  and esweight :: "(source option \<times> block) list \<Rightarrow> nat"
where
  "bweight (Block keyword cs prepared) = Suc (csweight cs)"
| "csweight [] = 0"
| "csweight (i # rest) = Suc (nweight i + csweight rest)"
| "esweight [] = 0"
| "esweight ((src, blk) # rest) = Suc (bweight blk + esweight rest)"
| "nweight (SLBlock blk) = Suc (bweight blk)"
| "nweight (SLDisplayable blk cfg positional prepared) = Suc (bweight blk)"
| "nweight (SLIf serial entries prepared_entries) = Suc (esweight entries)"
| "nweight (SLFor blk variable expression prepared) = Suc (Suc (bweight blk))"
| "nweight (SLPython code) = 0"
| "nweight (SLPass serial) = 0"
| "nweight (SLDefault variable expression expr) = 0"

text \<open>A call of \<open>execute\<close> returns a tree of the same shape.\<close>

lemma weight_preserved:
  "execute_execute_children_execute_entries_execute_for_dom (Inl (Inl (env, n, st))) \<Longrightarrow>
     (\<forall>n1 st1. execute env n st = Inr (n1, st1) \<longrightarrow> nweight n1 = nweight n)"
  "execute_execute_children_execute_entries_execute_for_dom (Inl (Inr (env, cs, st))) \<Longrightarrow>
     (\<forall>cs1 st1. execute_children env cs st = Inr (cs1, st1) \<longrightarrow> csweight cs1 = csweight cs)"
  "execute_execute_children_execute_entries_execute_for_dom (Inr (Inl (env, conds, es, st))) \<Longrightarrow>
     (\<forall>es1 st1. execute_entries env conds es st = Inr (es1, st1) \<longrightarrow> esweight es1 = esweight es)"
  "execute_execute_children_execute_entries_execute_for_dom (Inr (Inr (env, v, cs, vs, st))) \<Longrightarrow>
     (\<forall>cs1 st1. execute_for env v cs vs st = Inr (cs1, st1) \<longrightarrow> csweight cs1 = csweight cs)"
proof (induct rule: execute_execute_children_execute_entries_execute_for.pinduct)
  case (1 env st)
  then show ?case by (simp add: execute_children.psimps)
next
  case (2 env i rest st)
  show ?case
  proof (intro allI impI)
    fix cs1 st1
    assume a: "execute_children env (i # rest) st = Inr (cs1, st1)"
    from a "2.hyps"(1) obtain i1 st2 rest1 where
      e1: "execute env i st = Inr (i1, st2)" and
      e2: "execute_children env rest st2 = Inr (rest1, st1)" and
      c: "cs1 = i1 # rest1"
      by (simp add: execute_children.psimps split: sum.splits prod.splits)
    from "2.hyps"(2) e1 have "nweight i1 = nweight i" by blast
    moreover from "2.hyps"(3)[OF e1 refl] e2 have "csweight rest1 = csweight rest" by blast
    ultimately show "csweight cs1 = csweight (i # rest)" using c by simp
  qed
next
  case (3 env entries st)
  then show ?case by (simp add: execute_entries.psimps)
next
  case (4 env cond conds st)
  then show ?case by (simp add: execute_entries.psimps)
next
  case (5 env cond conds src keyword cs prepared entries st)
  show ?case
  proof (intro allI impI)
    fix es1 st1
    assume a: "execute_entries env (cond # conds) ((src, Block keyword cs prepared) # entries) st = Inr (es1, st1)"
    from a "5.hyps"(1) obtain b where b: "condition_holds env cond (scope (fst st)) = Inr b"
      by (simp add: execute_entries.psimps split: sum.splits)
    show "esweight es1 = esweight ((src, Block keyword cs prepared) # entries)"
    proof (cases b)
      case True
      with a b "5.hyps"(1) obtain cs1 where
        "execute_children env cs st = Inr (cs1, st1)" "es1 = (src, Block keyword cs1 prepared) # entries"
        by (auto simp: execute_entries.psimps split: sum.splits prod.splits)
      with "5.hyps"(2)[OF b True] show ?thesis by simp
    next
      case False
      with a b "5.hyps"(1) obtain entries1 where
        "execute_entries env conds entries st = Inr (entries1, st1)"
        "es1 = (src, Block keyword cs prepared) # entries1"
        by (auto simp: execute_entries.psimps split: sum.splits prod.splits)
      with "5.hyps"(3)[OF b False] show ?thesis by simp
    qed
  qed
next
  case (6 env variable cs st)
  then show ?case by (simp add: execute_for.psimps)
next
  case (7 env variable cs i rest cx u)
  show ?case
  proof (intro allI impI)
    fix cs2 st2
    assume a: "execute_for env variable cs (i # rest) (cx, u) = Inr (cs2, st2)"
    from a "7.hyps"(1) obtain cs1 st1 where
      e1: "execute_children env cs (cx\<lparr>scope := AList.update variable i (scope cx)\<rparr>, u) = Inr (cs1, st1)"
      and e2: "execute_for env variable cs1 rest st1 = Inr (cs2, st2)"
      by (simp add: execute_for.psimps split: sum.splits prod.splits)
    from "7.hyps"(2) e1 have "csweight cs1 = csweight cs" by blast
    moreover from "7.hyps"(3)[OF e1 refl] e2 have "csweight cs2 = csweight cs1" by blast
    ultimately show "csweight cs2 = csweight cs" by simp
  qed
next
  case (8 env keyword cs prepared st)
  show ?case
  proof (intro allI impI)
    fix n1 st1
    assume a: "execute env (SLBlock (Block keyword cs prepared)) st = Inr (n1, st1)"
    from a "8.hyps"(1) obtain cs1 where
      "execute_children env cs st = Inr (cs1, st1)" "n1 = SLBlock (Block keyword cs1 prepared)"
      by (simp add: execute.psimps split: sum.splits prod.splits)
    with "8.hyps"(2) show "nweight n1 = nweight (SLBlock (Block keyword cs prepared))" by simp
  qed
next
  case (9 env keyword cs kprepared cfg positional prepared cx u)
  show ?case
  proof (intro allI impI)
    fix n1 st1
    assume a: "execute env (SLDisplayable (Block keyword cs kprepared) cfg positional prepared) (cx, u) = Inr (n1, st1)"
    from a "9.hyps"(1) obtain p c d u1 cs1 ctx1 u2 where
      "prepared = Some p"
      "displayable_arguments env (Block keyword cs kprepared) cfg p cx u = Inr c"
      "displayable env (d_displayable cfg) (call_positional c) (call_keywords c) u = Inr (d, u1)"
      "execute_children env cs (call_ctx c, u1) = Inr (cs1, (ctx1, u2))"
      "n1 = SLDisplayable (Block keyword cs1 kprepared) cfg positional (Some (call_stored c, snd p))"
      by (simp add: execute.psimps split: sum.splits prod.splits option.splits)
    with "9.hyps"(2)[of p c "(d, u1)" d u1]
    show "nweight n1 = nweight (SLDisplayable (Block keyword cs kprepared) cfg positional prepared)"
      by simp
  qed
next
  case (10 env serial entries prepared_entries st)
  show ?case
  proof (intro allI impI)
    fix n1 st1
    assume a: "execute env (SLIf serial entries prepared_entries) st = Inr (n1, st1)"
    from a "10.hyps"(1) obtain conds entries1 where
      "prepared_entries = Some conds"
      "execute_entries env conds entries st = Inr (entries1, st1)"
      "n1 = SLIf serial entries1 prepared_entries"
      by (simp add: execute.psimps split: sum.splits prod.splits option.splits)
    with "10.hyps"(2)[of conds] show "nweight n1 = nweight (SLIf serial entries prepared_entries)"
      by simp
  qed
next
  case (11 env keyword cs kprepared variable expression prepared cx u)
  show ?case
  proof (intro allI impI)
    fix n1 st1
    assume a: "execute env (SLFor (Block keyword cs kprepared) variable expression prepared) (cx, u) = Inr (n1, st1)"
    from a "11.hyps"(1) obtain ev ee v vs cs1 where
      "prepared = Some (ev, ee)"
      "(case ee of Some expr \<Rightarrow> py_eval_bytecode env expr None (Some (scope cx)) | None \<Rightarrow> Inr ev) = Inr v"
      "iter_values v = Inr vs"
      "execute_for env variable cs vs (cx, u) = Inr (cs1, st1)"
      "n1 = SLFor (Block keyword cs1 kprepared) variable expression prepared"
      by (simp add: execute.psimps split: sum.splits prod.splits option.splits)
    with "11.hyps"(2)[of "(ev, ee)" ev ee v vs]
    show "nweight n1 = nweight (SLFor (Block keyword cs kprepared) variable expression prepared)"
      by simp
  qed
next
  case (12 env code cx u)
  show ?case
  proof (intro allI impI)
    fix n1 st1
    assume a: "execute env (SLPython code) (cx, u) = Inr (n1, st1)"
    from a "12.hyps" have "n1 = SLPython code"
      by (simp add: execute.psimps split: sum.splits)
    then show "nweight n1 = nweight (SLPython code)" by simp
  qed
next
  case (13 env serial st)
  then show ?case by (simp add: execute.psimps)
next
  case (14 env variable expression expr cx u)
  show ?case
  proof (intro allI impI)
    fix n1 st1
    assume a: "execute env (SLDefault variable expression expr) (cx, u) = Inr (n1, st1)"
    from a "14.hyps" have "n1 = SLDefault variable expression expr"
      by (simp add: execute.psimps split: sum.splits option.splits if_splits)
    then show "nweight n1 = nweight (SLDefault variable expression expr)" by simp
  qed
qed

termination execute
  apply (relation "inv_image (less_than <*lex*> less_than)
     (\<lambda>x. case x of
        Inl (Inl (env, n, st)) \<Rightarrow> (nweight n, 0)
      | Inl (Inr (env, cs, st)) \<Rightarrow> (csweight cs, 0)
      | Inr (Inl (env, conds, es, st)) \<Rightarrow> (esweight es, 0)
      | Inr (Inr (env, v, cs, vs, st)) \<Rightarrow> (Suc (csweight cs), length vs))")
  apply (auto dest: weight_preserved(2))
  done

text \<open>\<^verbatim>\<open>SLBlock.execute\<close> on a block: the loop over its children.\<close>

definition SLBlock_execute :: "'w env \<Rightarrow> block \<Rightarrow> 'w state \<Rightarrow> error + block \<times> 'w state" where
  "SLBlock_execute env blk st =
     (case blk of Block keyword cs prepared \<Rightarrow>
        (case execute_children env cs st of
           Inl e \<Rightarrow> Inl e
         | Inr (cs1, st1) \<Rightarrow> Inr (Block keyword cs1 prepared, st1)))"

section \<open>An example environment\<close>

text \<open>
  A concrete instance of the parameters, used to run the definitions on examples. UI
  elements record how they were built. Source texts are looked up in a table of literals
  or read as a variable name: a name is looked up in \<^verbatim>\<open>locals\<close>, then in \<^verbatim>\<open>globals\<close>;
  \<^verbatim>\<open>globals\<close> defaults to the store and \<^verbatim>\<open>locals\<close> to \<^verbatim>\<open>globals\<close>.
\<close>

datatype widget =
    Widget string "pyval list" kwargs "widget list"
  | Transformed pyval widget

text \<open>The literals and the statements the examples use, with their meaning.\<close>

definition demo_literals :: "(source \<times> pyval) list" where
  "demo_literals =
     [(''1'', VInt 1), (''2'', VInt 2), (''3'', VInt 3), (''5'', VInt 5),
      (''[1, 2, 3]'', VList [VInt 1, VInt 2, VInt 3]),
      (''\"red\"'', VStr ''red''), (''\"w\"'', VStr ''w''), (''None'', VNone)]"

definition demo_statements :: "(source \<times> string \<times> pyval) list" where
  "demo_statements = [(''x = 0'', (''x'', VInt 0))]"

text \<open>Evaluation and execution in the example environment, given the store.\<close>

definition demo_eval :: "scope \<Rightarrow> source \<Rightarrow> scope option \<Rightarrow> scope option \<Rightarrow> error + pyval" where
  "demo_eval store src globals locals =
     (case map_of demo_literals src of
        Some v \<Rightarrow> Inr v
      | None \<Rightarrow>
          (let g = (case globals of None \<Rightarrow> store | Some g \<Rightarrow> g);
               l = (case locals of None \<Rightarrow> g | Some l \<Rightarrow> l)
           in case map_of l src of
                Some v \<Rightarrow> Inr v
              | None \<Rightarrow>
                  (case map_of g src of
                     Some v \<Rightarrow> Inr v
                   | None \<Rightarrow> Inl (PyError ''NameError''))))"

definition demo_exec :: "source \<Rightarrow> scope \<Rightarrow> error + scope" where
  "demo_exec code sc =
     (case map_of demo_statements code of
        Some (name, v) \<Rightarrow> Inr (AList.update name v sc)
      | None \<Rightarrow> Inl (PyError ''SyntaxError''))"

text \<open>An element built by a construction function takes children; a transformed one does not.\<close>

fun demo_add :: "widget \<Rightarrow> widget \<Rightarrow> error + widget" where
  "demo_add (Widget name args kw kids) i = Inr (Widget name args kw (kids @ [i]))"
| "demo_add (Transformed t d) i = Inl (AttributeError ''add'')"

definition demo_env :: "scope \<Rightarrow> widget env" where
  "demo_env store =
     \<lparr>syntax_error = (\<lambda>src. None),
      is_constant = (\<lambda>node. case node of
                        ast_Parsed src \<Rightarrow> map_of demo_literals src \<noteq> None
                      | ast_Num n \<Rightarrow> True
                      | ast_Str s \<Rightarrow> True
                      | _ \<Rightarrow> False),
      eval_parsed = demo_eval store,
      py_exec_bytecode = demo_exec,
      get_style = (\<lambda>name. Inr (VObject name)),
      displayable = (\<lambda>name args kw u. Inr (Widget name args kw [], u)),
      add = demo_add,
      transform = (\<lambda>t d. Inr (Transformed t d))\<rparr>"

text \<open>A screen without widget properties, and the default configuration of a displayable.\<close>

definition demo_ui :: "widget ui" where
  "demo_ui = \<lparr>widget_properties = [], widgets = [], imagemap_stack = []\<rparr>"

definition config :: "string \<Rightarrow> dconfig" where
  "config name =
     \<lparr>d_displayable = name, d_scope = False, d_child_or_fixed = False, d_style = None,
      d_pass_context = False, d_imagemap = False\<rparr>"

section \<open>Predicates for the statements\<close>


text \<open>
  \<open>constant_keywords\<close>: the keywords traversal of the node evaluates nothing, that is,
  every block it reaches has no dynamic keyword unit and every \<^verbatim>\<open>SLIf\<close> it reaches has
  only absent conditions. (The traversal does not enter \<^verbatim>\<open>SLFor\<close>, \<^verbatim>\<open>SLPython\<close>,
  \<^verbatim>\<open>SLPass\<close> and \<^verbatim>\<open>SLDefault\<close>.)
\<close>

fun constant_keywords :: "node \<Rightarrow> bool"
  and constant_keywords_block :: "block \<Rightarrow> bool"
  and constant_keywords_children :: "node list \<Rightarrow> bool"
  and constant_keywords_entries :: "(source option \<times> block) list \<Rightarrow> bool"
where
  "constant_keywords_block (Block keyword cs prepared) =
     ((case prepared of None \<Rightarrow> True | Some p \<Rightarrow> snd p = None) \<and> constant_keywords_children cs)"
| "constant_keywords_children [] = True"
| "constant_keywords_children (i # rest) =
     (constant_keywords i \<and> constant_keywords_children rest)"
| "constant_keywords_entries [] = True"
| "constant_keywords_entries ((src, blk) # rest) =
     (constant_keywords_block blk \<and> constant_keywords_entries rest)"
| "constant_keywords (SLBlock blk) = constant_keywords_block blk"
| "constant_keywords (SLDisplayable blk cfg positional prepared) = constant_keywords_block blk"
| "constant_keywords (SLIf serial entries prepared_entries) =
     ((case prepared_entries of None \<Rightarrow> True | Some conds \<Rightarrow> list_all (\<lambda>c. c = None) conds)
      \<and> constant_keywords_entries entries)"
| "constant_keywords (SLFor blk variable expression prepared) = True"
| "constant_keywords (SLPython code) = True"
| "constant_keywords (SLPass serial) = True"
| "constant_keywords (SLDefault variable expression expr) = True"


text \<open>
  \<open>keeps x n\<close>: no statement of the node \<open>n\<close> can assign the variable \<open>x\<close> of the scope. The
  statements that write to the scope are \<^verbatim>\<open>SLPython\<close> (the embedded code runs with the scope
  as its locals, so it may assign any variable), \<^verbatim>\<open>SLFor\<close> (it assigns its own loop
  variable) and \<^verbatim>\<open>SLDefault\<close> (it assigns its own variable when that is not bound).
\<close>

fun keeps :: "string \<Rightarrow> node \<Rightarrow> bool"
  and keeps_block :: "string \<Rightarrow> block \<Rightarrow> bool"
  and keeps_children :: "string \<Rightarrow> node list \<Rightarrow> bool"
  and keeps_entries :: "string \<Rightarrow> (source option \<times> block) list \<Rightarrow> bool"
where
  "keeps_block x (Block keyword cs prepared) = keeps_children x cs"
| "keeps_children x [] = True"
| "keeps_children x (i # rest) = (keeps x i \<and> keeps_children x rest)"
| "keeps_entries x [] = True"
| "keeps_entries x ((src, blk) # rest) = (keeps_block x blk \<and> keeps_entries x rest)"
| "keeps x (SLBlock blk) = keeps_block x blk"
| "keeps x (SLDisplayable blk cfg positional prepared) = keeps_block x blk"
| "keeps x (SLIf serial entries prepared_entries) = keeps_entries x entries"
| "keeps x (SLFor blk variable expression prepared) = (variable \<noteq> x \<and> keeps_block x blk)"
| "keeps x (SLPython code) = False"
| "keeps x (SLPass serial) = True"
| "keeps x (SLDefault variable expression expr) = (variable \<noteq> x)"

text \<open>The positional and keyword arguments of the construction call, or the error.\<close>

definition construction_arguments :: "error + 'w call \<Rightarrow> error + pyval list \<times> kwargs" where
  "construction_arguments r =
     (case r of Inl e \<Rightarrow> Inl e | Inr c \<Rightarrow> Inr (call_positional c, call_keywords c))"

text \<open>A result of the keywords traversal with the scope replaced.\<close>

definition with_scope :: "scope \<Rightarrow> error + 'w SLContext \<Rightarrow> error + 'w SLContext" where
  "with_scope s r = (case r of Inl e \<Rightarrow> Inl e | Inr c \<Rightarrow> Inr (c\<lparr>scope := s\<rparr>))"

section \<open>Example nodes\<close>

text \<open>
  A displayable with \<^verbatim>\<open>pass_context=True\<close> and the constant positional argument \<^verbatim>\<open>1\<close>,
  as the parser builds it and as \<^verbatim>\<open>prepare\<close> leaves it.
\<close>

definition pass_context_text :: node where
  "pass_context_text =
     SLDisplayable (Block [] [] None) ((config ''text'')\<lparr>d_pass_context := True\<rparr>) [''1''] None"

definition pass_context_text_prepared :: node where
  "pass_context_text_prepared =
     SLDisplayable (Block [] [] (Some (None, None)))
       ((config ''text'')\<lparr>d_pass_context := True\<rparr>) [''1'']
       (Some (Some [Constant (VInt 1)], None))"

text \<open>
  A block with the dynamic keyword \<^verbatim>\<open>color c\<close>, and a context whose scope binds
  \<^verbatim>\<open>c\<close> to \<^verbatim>\<open>"red"\<close>.
\<close>

definition color_block :: node where
  "color_block = SLBlock (Block [(''color'', ''c'')] [] None)"

definition color_block_prepared :: node where
  "color_block_prepared =
     SLBlock (Block [(''color'', ''c'')] []
       (Some (None, Some (Code (ast_Dict [ast_Str ''color''] [ast_Parsed ''c''])))))"

definition red_context :: "widget SLContext" where
  "red_context = (SLContext_init None)\<lparr>scope := [(''c'', VStr ''red'')]\<rparr>"

text \<open>
  The prepared entries of \<^verbatim>\<open>if a: pass / elif b: default y = 5 (with the keyword color "red")
  / else: $ x = 0\<close>, followed by an entry whose condition cannot be evaluated, and a context
  in which \<^verbatim>\<open>a\<close> is false and \<^verbatim>\<open>b\<close> is true.
\<close>

definition if_entries :: "(source option \<times> block) list" where
  "if_entries =
     [(Some ''a'', Block [] [SLPass 1] (Some (None, None))),
      (Some ''b'', Block [(''color'', ''\"red\"'')] [SLDefault ''y'' ''5'' (Some (Code (ast_Parsed ''5'')))]
                     (Some (Some [(''color'', VStr ''red'')], None))),
      (None, Block [] [SLPython ''x = 0''] (Some (None, None))),
      (Some ''boom'', Block [] [] (Some (None, None)))]"

definition if_conds :: "bytecode option list" where
  "if_conds =
     [Some (Code (ast_Parsed ''a'')), Some (Code (ast_Parsed ''b'')), None,
      Some (Code (ast_Parsed ''boom''))]"

definition ab_context :: "widget SLContext" where
  "ab_context = (SLContext_init None)\<lparr>scope := [(''a'', VBool False), (''b'', VBool True)]\<rparr>"

text \<open>
  A prepared \<^verbatim>\<open>vbox\<close> with the keyword \<^verbatim>\<open>color "red"\<close> and the children
  \<^verbatim>\<open>default y = 5\<close> and \<^verbatim>\<open>text y\<close>; a caller's context that already has a child, a
  keyword and a style prefix; and that context after the \<^verbatim>\<open>vbox\<close> has run.
\<close>

definition vbox_prepared :: node where
  "vbox_prepared =
     SLDisplayable
       (Block [(''color'', ''\"red\"'')]
          [SLDefault ''y'' ''5'' (Some (Code (ast_Parsed ''5''))),
           SLDisplayable (Block [] [] (Some (None, None))) (config ''text'') [''y'']
             (Some (None, Some (Code (ast_Tuple [ast_Parsed ''y'']))))]
          (Some (Some [(''color'', VStr ''red'')], None)))
       (config ''vbox'') [] (Some (None, None))"

definition caller_context :: "widget SLContext" where
  "caller_context =
     \<lparr>scope = [(''x'', VInt 1)], children = [Widget ''first'' [] [] []],
      keywords_dict = [(''spacing'', VInt 2)], style_prefix = ''pref_''\<rparr>"

definition caller_context_after :: "widget SLContext" where
  "caller_context_after =
     \<lparr>scope = [(''x'', VInt 1), (''y'', VInt 5)],
      children = [Widget ''first'' [] [] [],
                  Widget ''vbox'' [] [(''color'', VStr ''red'')] [Widget ''text'' [VInt 5] [] []]],
      keywords_dict = [(''spacing'', VInt 2)], style_prefix = ''pref_''\<rparr>"





text \<open>
  A tree with a default, a \<^verbatim>\<open>vbox\<close> (a constant and a dynamic keyword) around a text with
  a constant and a dynamic positional argument, an if and a for, as built and as prepared.
\<close>

definition screen_tree :: node where
  "screen_tree =
     SLBlock (Block []
       [SLDefault ''y'' ''5'' None,
        SLDisplayable
          (Block [(''color'', ''\"red\"''), (''spacing'', ''y'')]
             [SLDisplayable (Block [] [] None) (config ''text'') [''1'', ''y''] None] None)
          (config ''vbox'') [] None,
        SLIf 1 [(Some ''y'', Block [] [SLPass 2] None),
                (None, Block [] [SLPython ''x = 0''] None)] None,
        SLFor (Block [] [SLDisplayable (Block [] [] None) (config ''text'') [''x''] None] None)
          ''x'' ''[1, 2, 3]'' None]
       None)"

definition screen_tree_prepared :: node where
  "screen_tree_prepared =
     SLBlock (Block []
       [SLDefault ''y'' ''5'' (Some (Code (ast_Parsed ''5''))),
        SLDisplayable
          (Block [(''color'', ''\"red\"''), (''spacing'', ''y'')]
             [SLDisplayable (Block [] [] (Some (None, None))) (config ''text'') [''1'', ''y'']
                (Some (Some [Constant (VInt 1), use_expression],
                       Some (Code (ast_Tuple [ast_Num 0, ast_Parsed ''y'']))))]
             (Some (Some [(''color'', VStr ''red'')],
                    Some (Code (ast_Dict [ast_Str ''spacing''] [ast_Parsed ''y''])))))
          (config ''vbox'') [] (Some (None, None)),
        SLIf 1 [(Some ''y'', Block [] [SLPass 2] (Some (None, None))),
                (None, Block [] [SLPython ''x = 0''] (Some (None, None)))]
          (Some [Some (Code (ast_Parsed ''y'')), None]),
        SLFor (Block []
                 [SLDisplayable (Block [] [] (Some (None, None))) (config ''text'') [''x'']
                    (Some (None, Some (Code (ast_Tuple [ast_Parsed ''x'']))))]
                 (Some (None, None)))
          ''x'' ''[1, 2, 3]'' (Some (VList [VInt 1, VInt 2, VInt 3], None))]
       (Some (None, None)))"

text \<open>
  \<^verbatim>\<open>text 1 y 2\<close> (two constants around a dynamic argument), as built and as prepared, and
  a context whose scope binds \<^verbatim>\<open>y\<close> to 7.
\<close>

definition mixed_text :: node where
  "mixed_text = SLDisplayable (Block [] [] None) (config ''text'') [''1'', ''y'', ''2''] None"

definition mixed_text_prepared :: node where
  "mixed_text_prepared =
     SLDisplayable (Block [] [] (Some (None, None))) (config ''text'') [''1'', ''y'', ''2'']
       (Some (Some [Constant (VInt 1), use_expression, Constant (VInt 2)],
              Some (Code (ast_Tuple [ast_Num 0, ast_Parsed ''y'', ast_Num 0]))))"

definition y_context :: "widget SLContext" where
  "y_context = (SLContext_init None)\<lparr>scope := [(''y'', VInt 7)]\<rparr>"

text \<open>
  A prepared \<^verbatim>\<open>text\<close> with the keywords \<^verbatim>\<open>id "w"\<close> and \<^verbatim>\<open>color "red"\<close>; widget
  properties that map \<^verbatim>\<open>"w"\<close> to \<^verbatim>\<open>{color: "blue"}\<close>, and widget properties that
  map \<^verbatim>\<open>"w"\<close> to \<^verbatim>\<open>{at: t}\<close>; and what \<open>displayable_arguments\<close> returns under the
  first.
\<close>

definition id_text_prepared :: node where
  "id_text_prepared =
     SLDisplayable
       (Block [(''id'', ''\"w\"''), (''color'', ''\"red\"'')] []
          (Some (Some [(''id'', VStr ''w''), (''color'', VStr ''red'')], None)))
       (config ''text'') [] (Some (None, None))"

definition blue_ui :: "widget ui" where
  "blue_ui = demo_ui\<lparr>widget_properties := [(VStr ''w'', [(''color'', VStr ''blue'')])]\<rparr>"

definition at_ui :: "widget ui" where
  "at_ui = demo_ui\<lparr>widget_properties := [(VStr ''w'', [(''at'', VObject ''t'')])]\<rparr>"


definition blue_call :: "widget call" where
  "blue_call =
     \<lparr>call_positional = [], call_keywords = [(''color'', VStr ''blue'')],
      call_widget_id = VStr ''w'', call_transform = VNone,
      call_ctx = \<lparr>scope = [], children = [], keywords_dict = [(''color'', VStr ''blue'')],
                  style_prefix = []\<rparr>,
      call_stored = None\<rparr>"

text \<open>
  \<^verbatim>\<open>text 1 color "red"\<close> built with \<^verbatim>\<open>scope=True\<close>, and its block after \<^verbatim>\<open>prepare\<close>;
  the same text without the flag and with a child \<^verbatim>\<open>if\<close> that has only an else branch
  (with the keyword \<^verbatim>\<open>size 2\<close>), and its block after \<^verbatim>\<open>prepare\<close>; a root context
  whose scope binds \<^verbatim>\<open>x\<close>.
\<close>

definition scope_text :: node where
  "scope_text =
     SLDisplayable (Block [(''color'', ''\"red\"'')] [] None)
       ((config ''text'')\<lparr>d_scope := True\<rparr>) [''1''] None"

definition scope_text_block :: block where
  "scope_text_block =
     Block [(''color'', ''\"red\"'')] [] (Some (Some [(''color'', VStr ''red'')], None))"

definition constant_text :: node where
  "constant_text =
     SLDisplayable
       (Block [(''color'', ''\"red\"'')]
          [SLIf 1 [(None, Block [(''size'', ''2'')] [] None)] None] None)
       (config ''text'') [''1''] None"

definition constant_text_block :: block where
  "constant_text_block =
     Block [(''color'', ''\"red\"'')]
       [SLIf 1 [(None, Block [(''size'', ''2'')] [] (Some (Some [(''size'', VInt 2)], None)))]
          (Some [None])]
       (Some (Some [(''color'', VStr ''red'')], None))"

definition x_context :: "int \<Rightarrow> widget SLContext" where
  "x_context i = (SLContext_init None)\<lparr>scope := [(''x'', VInt i)]\<rparr>"

section \<open>Serial numbers\<close>

text \<open>
  C3. Every node of every class is to get a serial number from the counter at
  construction. The code: \<^verbatim>\<open>SLBlock\<close> extends \<^verbatim>\<open>object\<close>, \<^verbatim>\<open>SLPython.__init__\<close> calls
  \<^verbatim>\<open>super(SLNode, self).__init__()\<close> and \<^verbatim>\<open>SLDefault.__init__\<close> calls no initialiser, so
  a block, a displayable, a for, a python and a default node have no serial and leave the
  counter as it was; only \<^verbatim>\<open>SLIf\<close> and \<^verbatim>\<open>SLPass\<close> take the next serial.
\<close>

theorem serial_only_on_If_and_Pass:
  "new_SLBlock serial = (SLBlock (Block [] [] None), serial)
   \<and> serial_of (fst (new_SLBlock serial)) = None
   \<and> snd (new_SLDisplayable f sc cf sty pc im serial) = serial
   \<and> serial_of (fst (new_SLDisplayable f sc cf sty pc im serial)) = None
   \<and> snd (new_SLFor v e serial) = serial
   \<and> serial_of (fst (new_SLFor v e serial)) = None
   \<and> snd (new_SLPython code serial) = serial
   \<and> serial_of (fst (new_SLPython code serial)) = None
   \<and> snd (new_SLDefault v e serial) = serial
   \<and> serial_of (fst (new_SLDefault v e serial)) = None
   \<and> new_SLIf serial = (SLIf (serial + 1) [] None, serial + 1)
   \<and> new_SLPass serial = (SLPass (serial + 1), serial + 1)"
  by (simp add: new_SLBlock_def new_SLDisplayable_def new_SLFor_def new_SLPython_def
      new_SLDefault_def new_SLIf_def new_SLPass_def SLNode_init_def SLBlock_init_def)

section \<open>Nodes after prepare\<close>

text \<open>
  C1. No call of \<^verbatim>\<open>execute\<close> is to change a field of a prepared node. With
  \<^verbatim>\<open>pass_context\<close> set and only constant positional arguments, \<^verbatim>\<open>positional\<close> is the
  stored list itself and \<^verbatim>\<open>positional.insert(0, ctx)\<close> writes into it: after one call
  the stored list holds the context before the value \<^verbatim>\<open>1\<close>.
\<close>

theorem execute_changes_positional_values:
  "prepare (demo_env []) pass_context_text = Inr pass_context_text_prepared
   \<and> execute (demo_env []) pass_context_text_prepared (SLContext_init None, demo_ui) =
       Inr (SLDisplayable (Block [] [] (Some (None, None)))
              ((config ''text'')\<lparr>d_pass_context := True\<rparr>) [''1'']
              (Some (Some [Constant (VContext [] []), Constant (VInt 1)], None)),
            \<lparr>scope = [], children = [Widget ''text'' [VContext [] [], VInt 1] [] []],
             keywords_dict = [], style_prefix = []\<rparr>,
            demo_ui)"
  by code_simp

section \<open>The keywords of a block\<close>

text \<open>
  C6. \<^verbatim>\<open>SLBlock.keywords\<close> is to evaluate the dynamic keywords against the current scope.
  The code calls \<^verbatim>\<open>py_eval_bytecode(keyword_exprs)\<close> without the scope: with \<^verbatim>\<open>c\<close> bound
  to \<^verbatim>\<open>"red"\<close> in the scope of the context, the keyword \<^verbatim>\<open>color c\<close> gets the value
  \<^verbatim>\<open>c\<close> has in the default namespace (\<^verbatim>\<open>"blue"\<close> here), and the call raises when the
  default namespace does not bind \<^verbatim>\<open>c\<close>.
\<close>

theorem dynamic_keywords_not_read_from_scope:
  "prepare (demo_env [(''c'', VStr ''blue'')]) color_block = Inr color_block_prepared
   \<and> keywords_node (demo_env [(''c'', VStr ''blue'')]) color_block_prepared red_context =
       Inr (red_context\<lparr>keywords_dict := [(''color'', VStr ''blue'')]\<rparr>)
   \<and> prepare (demo_env []) color_block = Inr color_block_prepared
   \<and> keywords_node (demo_env []) color_block_prepared red_context = Inl (PyError ''NameError'')"
  by code_simp

section \<open>If nodes\<close>

lemma keywords_entries_first_match:
  assumes "length cpre = length epre"
    and "\<forall>c \<in> set cpre. condition_holds env c (scope cx) = Inr False"
    and "condition_holds env c (scope cx) = Inr True"
  shows "keywords_entries env (cpre @ c # cpost) (epre @ (src, blk) # epost) cx =
           SLBlock_keywords env blk cx"
  using assms
proof (induction cpre epre rule: list_induct2)
  case Nil
  then show ?case by simp
next
  case (Cons c1 cs1 e1 es1)
  obtain s1 b1 where e1: "e1 = (s1, b1)" by (cases e1)
  from Cons show ?case by (simp add: e1)
qed

lemma execute_entries_first_match:
  assumes "length cpre = length epre"
    and "\<forall>c \<in> set cpre. condition_holds env c (scope (fst st)) = Inr False"
    and "condition_holds env c (scope (fst st)) = Inr True"
  shows "execute_entries env (cpre @ c # cpost) (epre @ (src, blk) # epost) st =
           (case SLBlock_execute env blk st of
              Inl e \<Rightarrow> Inl e
            | Inr (blk1, st1) \<Rightarrow> Inr (epre @ (src, blk1) # epost, st1))"
  using assms
proof (induction cpre epre rule: list_induct2)
  case Nil
  obtain keyword cs prepared where blk: "blk = Block keyword cs prepared" by (cases blk)
  from Nil show ?case
    by (simp add: blk SLBlock_execute_def split: sum.splits prod.splits)
next
  case (Cons c1 cs1 e1 es1)
  obtain s1 k1 ch1 p1 where e1: "e1 = (s1, Block k1 ch1 p1)"
    by (cases e1) (metis block.exhaust)
  from Cons show ?case
    by (simp add: e1 split: sum.splits prod.splits)
qed

text \<open>When every condition is false, neither traversal changes anything.\<close>

lemma If_no_match:
  assumes "\<forall>c \<in> set conds. condition_holds env c (scope cx) = Inr False"
  shows "keywords_entries env conds entries cx = Inr cx"
    and "execute_entries env conds entries (cx, u) = Inr (entries, (cx, u))"
proof -
  from assms show "keywords_entries env conds entries cx = Inr cx"
  proof (induction conds arbitrary: entries)
    case Nil
    then show ?case by simp
  next
    case (Cons c conds)
    show ?case
    proof (cases entries)
      case Nil
      then show ?thesis by simp
    next
      case (Cons e es)
      obtain src blk where "e = (src, blk)" by (cases e)
      with Cons Cons.prems Cons.IH show ?thesis by simp
    qed
  qed
  from assms show "execute_entries env conds entries (cx, u) = Inr (entries, (cx, u))"
  proof (induction conds arbitrary: entries)
    case Nil
    then show ?case by simp
  next
    case (Cons c conds)
    show ?case
    proof (cases entries)
      case Nil
      then show ?thesis by simp
    next
      case (Cons e es)
      obtain src keyword cs prepared where "e = (src, Block keyword cs prepared)"
        by (cases e) (metis block.exhaust)
      with Cons Cons.prems Cons.IH show ?thesis by simp
    qed
  qed
qed

text \<open>
  C4. For a prepared \<^verbatim>\<open>SLIf\<close> and any scope, \<^verbatim>\<open>keywords\<close> and \<^verbatim>\<open>execute\<close> act on the
  first entry whose condition is absent or true, and on nothing else: when the conditions
  before an entry are all false and its own is absent or true, the result is that of the
  entry's block alone, whatever entries follow (their conditions are not evaluated and
  their blocks do not run).
\<close>

theorem If_acts_on_first_match:
  assumes "length cpre = length epre"
    and "\<forall>c \<in> set cpre. condition_holds env c (scope cx) = Inr False"
    and "condition_holds env c (scope cx) = Inr True"
  shows "keywords_node env (SLIf serial (epre @ (src, blk) # epost) (Some (cpre @ c # cpost))) cx =
           SLBlock_keywords env blk cx
       \<and> execute env (SLIf serial (epre @ (src, blk) # epost) (Some (cpre @ c # cpost))) (cx, u) =
           (case SLBlock_execute env blk (cx, u) of
              Inl e \<Rightarrow> Inl e
            | Inr (blk1, st1) \<Rightarrow>
                Inr (SLIf serial (epre @ (src, blk1) # epost) (Some (cpre @ c # cpost)), st1))"
proof
  show "keywords_node env (SLIf serial (epre @ (src, blk) # epost) (Some (cpre @ c # cpost))) cx =
           SLBlock_keywords env blk cx"
    using keywords_entries_first_match [OF assms] by simp
next
  have "execute_entries env (cpre @ c # cpost) (epre @ (src, blk) # epost) (cx, u) =
           (case SLBlock_execute env blk (cx, u) of
              Inl e \<Rightarrow> Inl e
            | Inr (blk1, st1) \<Rightarrow> Inr (epre @ (src, blk1) # epost, st1))"
    using execute_entries_first_match [of cpre epre env "(cx, u)" c] assms by simp
  then show "execute env (SLIf serial (epre @ (src, blk) # epost) (Some (cpre @ c # cpost))) (cx, u) =
           (case SLBlock_execute env blk (cx, u) of
              Inl e \<Rightarrow> Inl e
            | Inr (blk1, st1) \<Rightarrow>
                Inr (SLIf serial (epre @ (src, blk1) # epost) (Some (cpre @ c # cpost)), st1))"
    by (simp split: sum.splits prod.splits)
qed

theorem If_acts_on_first_match_witness:
  "condition_holds (demo_env []) (Some (Code (ast_Parsed ''a''))) (scope ab_context) = Inr False
   \<and> condition_holds (demo_env []) (Some (Code (ast_Parsed ''b''))) (scope ab_context) = Inr True
   \<and> condition_holds (demo_env []) (Some (Code (ast_Parsed ''boom''))) (scope ab_context)
       = Inl (PyError ''NameError'')
   \<and> keywords_node (demo_env []) (SLIf 7 if_entries (Some if_conds)) ab_context =
       Inr (ab_context\<lparr>keywords_dict := [(''color'', VStr ''red'')]\<rparr>)
   \<and> execute (demo_env []) (SLIf 7 if_entries (Some if_conds)) (ab_context, demo_ui) =
       Inr (SLIf 7 if_entries (Some if_conds),
            ab_context\<lparr>scope := [(''a'', VBool False), (''b'', VBool True), (''y'', VInt 5)]\<rparr>,
            demo_ui)"
proof -
  let ?env = "demo_env [] :: widget env"
  let ?blk = "Block [(''color'', ''\"red\"'')] [SLDefault ''y'' ''5'' (Some (Code (ast_Parsed ''5'')))]
                     (Some (Some [(''color'', VStr ''red'')], None))"
  have a: "condition_holds ?env (Some (Code (ast_Parsed ''a''))) (scope ab_context) = Inr False"
    by code_simp
  have b: "condition_holds ?env (Some (Code (ast_Parsed ''b''))) (scope ab_context) = Inr True"
    by code_simp
  have boom: "condition_holds ?env (Some (Code (ast_Parsed ''boom''))) (scope ab_context)
       = Inl (PyError ''NameError'')"
    by code_simp
  have len: "length [Some (Code (ast_Parsed ''a''))] = length [(Some ''a'', Block [] [SLPass 1] (Some (None, None)))]"
    by simp
  have pre: "\<forall>c \<in> set [Some (Code (ast_Parsed ''a''))]. condition_holds ?env c (scope ab_context) = Inr False"
    using a by simp
  have k: "SLBlock_keywords ?env ?blk ab_context =
       Inr (ab_context\<lparr>keywords_dict := [(''color'', VStr ''red'')]\<rparr>)"
    by code_simp
  have e: "SLBlock_execute ?env ?blk (ab_context, demo_ui) =
       Inr (?blk, ab_context\<lparr>scope := [(''a'', VBool False), (''b'', VBool True), (''y'', VInt 5)]\<rparr>,
            demo_ui)"
    by code_simp
  note t = If_acts_on_first_match [OF len pre b, of 7 "Some ''b''" ?blk
      "[(None, Block [] [SLPython ''x = 0''] (Some (None, None))),
        (Some ''boom'', Block [] [] (Some (None, None)))]"
      "[None, Some (Code (ast_Parsed ''boom''))]" demo_ui]
  from t k e a b boom show ?thesis
    by (simp add: if_entries_def if_conds_def)
qed

section \<open>What a call of execute leaves alone\<close>




lemma displayable_finish_appends:
  assumes "displayable_finish env cfg wid tf d cx ctx u = Inr (cx1, u1)"
  shows "\<exists>d1. cx1 = cx\<lparr>scope := scope ctx, children := children cx @ [d1]\<rparr>"
  using assms
  by (auto simp: displayable_finish_def Let_def split: sum.splits if_splits)

lemma execute_SLDisplayable_Inr:
  assumes "execute env (SLDisplayable (Block keyword cs kprepared) cfg positional prepared) (cx, u)
             = Inr (n1, st1)"
  obtains p c d u1 cs1 ctx1 u2 where
    "prepared = Some p"
    "displayable_arguments env (Block keyword cs kprepared) cfg p cx u = Inr c"
    "displayable env (d_displayable cfg) (call_positional c) (call_keywords c) u = Inr (d, u1)"
    "execute_children env cs (call_ctx c, u1) = Inr (cs1, (ctx1, u2))"
    "displayable_finish env cfg (call_widget_id c) (call_transform c) d cx ctx1 u2 = Inr st1"
    "n1 = SLDisplayable (Block keyword cs1 kprepared) cfg positional (Some (call_stored c, snd p))"
  using assms by (simp split: sum.splits prod.splits option.splits)


lemma update_keywords_preserves:
  "update_keywords env p cx = Inr cx1 \<Longrightarrow> scope cx1 = scope cx \<and> children cx1 = children cx"
  by (cases p) (auto simp: update_keywords_def Let_def split: option.splits sum.splits pyval.splits)

lemma pop_style_group_preserves:
  "pop_style_group cx = Inr cx1 \<Longrightarrow> scope cx1 = scope cx \<and> children cx1 = children cx"
  by (auto simp: pop_style_group_def split: prod.splits option.splits pyval.splits)

lemma keywords_preserves:
  "\<forall>cx1. keywords_node env n cx = Inr cx1 \<longrightarrow> scope cx1 = scope cx \<and> children cx1 = children cx"
  "\<forall>cx1. SLBlock_keywords env blk cx = Inr cx1 \<longrightarrow> scope cx1 = scope cx \<and> children cx1 = children cx"
  "\<forall>cx1. keywords_children env cs cx = Inr cx1 \<longrightarrow> scope cx1 = scope cx \<and> children cx1 = children cx"
  "\<forall>cx1. keywords_entries env conds es cx = Inr cx1 \<longrightarrow> scope cx1 = scope cx \<and> children cx1 = children cx"
proof (induct env n cx and env blk cx and env cs cx and env conds es cx
    rule: keywords_node_SLBlock_keywords_keywords_children_keywords_entries.induct)
  case (1 env keyword cs prepared cx)
  show ?case
  proof (intro allI impI)
    fix cx3
    assume a: "SLBlock_keywords env (Block keyword cs prepared) cx = Inr cx3"
    then obtain p cx1 cx2 where
      p: "prepared = Some p" and
      e1: "update_keywords env p cx = Inr cx1" and
      e2: "pop_style_group cx1 = Inr cx2" and
      e3: "keywords_children env cs cx2 = Inr cx3"
      by (simp split: option.splits sum.splits)
    from "1.hyps"[OF p e1 e2] e3 have "scope cx3 = scope cx2 \<and> children cx3 = children cx2"
      by blast
    with update_keywords_preserves[OF e1] pop_style_group_preserves[OF e2]
    show "scope cx3 = scope cx \<and> children cx3 = children cx" by simp
  qed
next
  case (2 env cx)
  show ?case by simp
next
  case (3 env i rest cx)
  show ?case
  proof (intro allI impI)
    fix cx2
    assume a: "keywords_children env (i # rest) cx = Inr cx2"
    then obtain cx1 where
      e1: "keywords_node env i cx = Inr cx1" and e2: "keywords_children env rest cx1 = Inr cx2"
      by (simp split: sum.splits)
    from "3.hyps"(1) e1 have "scope cx1 = scope cx \<and> children cx1 = children cx" by blast
    moreover from "3.hyps"(2)[OF e1] e2 have "scope cx2 = scope cx1 \<and> children cx2 = children cx1"
      by blast
    ultimately show "scope cx2 = scope cx \<and> children cx2 = children cx" by simp
  qed
next
  case (4 env entries cx)
  show ?case by simp
next
  case (5 env cond conds cx)
  show ?case by simp
next
  case (6 env cond conds src blk entries cx)
  show ?case
  proof (intro allI impI)
    fix cx1
    assume a: "keywords_entries env (cond # conds) ((src, blk) # entries) cx = Inr cx1"
    then obtain b where b: "condition_holds env cond (scope cx) = Inr b"
      by (simp split: sum.splits)
    show "scope cx1 = scope cx \<and> children cx1 = children cx"
    proof (cases b)
      case True
      with a b have "SLBlock_keywords env blk cx = Inr cx1" by simp
      with "6.hyps"(1)[OF b True] show ?thesis by blast
    next
      case False
      with a b have "keywords_entries env conds entries cx = Inr cx1" by simp
      with "6.hyps"(2)[OF b False] show ?thesis by blast
    qed
  qed
next
  case (7 env blk cx)
  then show ?case by (simp only: keywords_node.simps)
next
  case (8 env blk cfg positional prepared cx)
  then show ?case by (simp only: keywords_node.simps)
next
  case (9 env serial entries prepared_entries cx)
  show ?case
  proof (intro allI impI)
    fix cx1
    assume a: "keywords_node env (SLIf serial entries prepared_entries) cx = Inr cx1"
    then obtain conds where c: "prepared_entries = Some conds"
      and e: "keywords_entries env conds entries cx = Inr cx1"
      by (simp split: option.splits)
    with "9.hyps"[OF c] show "scope cx1 = scope cx \<and> children cx1 = children cx" by blast
  qed
next
  case (10 env blk variable expression prepared cx)
  show ?case by simp
next
  case (11 env code cx)
  show ?case by simp
next
  case (12 env serial cx)
  show ?case by simp
next
  case (13 env variable expression expr cx)
  show ?case by simp
qed

lemma displayable_arguments_Inr:
  assumes "displayable_arguments env blk cfg (pv, pe) cx u = Inr c"
  obtains positional ctx positional1 keywords1 keywords3 args where
    "resolve_positional env pv pe (scope cx) = Inr positional"
    "SLBlock_keywords env blk (derive_context cx) = Inr ctx"
    "(if d_pass_context cfg
      then insert_first (VContext (scope ctx) (style_prefix ctx)) positional
      else Inr positional) = Inr positional1"
    "style_keyword env cfg ctx = Inr keywords1"
    "widget_overrides u (fst (pop_reserved (scope_keyword cfg ctx keywords1)))
       (snd (snd (pop_reserved (scope_keyword cfg ctx keywords1)))) = Inr keywords3"
    "unpack positional1 = Inr args"
    "c = \<lparr>call_positional = args, call_keywords = keywords3,
          call_widget_id = fst (pop_reserved (scope_keyword cfg ctx keywords1)),
          call_transform = fst (snd (pop_reserved (scope_keyword cfg ctx keywords1))),
          call_ctx = ctx\<lparr>keywords_dict := keywords3\<rparr>,
          call_stored = stored_values positional1 pv\<rparr>"
  using assms unfolding displayable_arguments_def
  by (simp split: sum.splits prod.splits)

lemma displayable_arguments_ctx:
  assumes "displayable_arguments env blk cfg p cx u = Inr c"
  shows "scope (call_ctx c) = scope cx \<and> children (call_ctx c) = []
         \<and> keywords_dict (call_ctx c) = call_keywords c"
proof -
  obtain pv pe where p: "p = (pv, pe)" by (cases p)
  from assms[unfolded p] obtain ctx keywords3 where
    k: "SLBlock_keywords env blk (derive_context cx) = Inr ctx" and
    c: "call_ctx c = ctx\<lparr>keywords_dict := keywords3\<rparr>" "call_keywords c = keywords3"
    by (rule displayable_arguments_Inr) simp
  from keywords_preserves(2)[of env blk "derive_context cx"] k
  have "scope ctx = scope cx \<and> children ctx = []"
    by (simp add: derive_context_def SLContext_init_def)
  with c show ?thesis by simp
qed

text \<open>
  C10. A completed call of \<^verbatim>\<open>SLDisplayable.execute\<close> appends exactly one element to the
  children of the caller's context and leaves the caller's keywords and style prefix as
  they were. The derived context starts with empty keywords and children; the context the
  children run against has the caller's scope and no children; and the scope the caller
  has afterwards is the one the children left in the derived context.
\<close>

theorem Displayable_execute_frame:
  assumes "execute env (SLDisplayable (Block keyword cs kprepared) cfg positional prepared) (cx, u)
             = Inr (n1, (cx1, u1))"
  shows "(\<exists>d. children cx1 = children cx @ [d])
       \<and> keywords_dict cx1 = keywords_dict cx
       \<and> style_prefix cx1 = style_prefix cx
       \<and> keywords_dict (derive_context cx) = []
       \<and> children (derive_context cx) = []
       \<and> (\<exists>p c ua cs1 ctx1 ub.
             displayable_arguments env (Block keyword cs kprepared) cfg p cx u = Inr c
           \<and> scope (call_ctx c) = scope cx
           \<and> children (call_ctx c) = []
           \<and> execute_children env cs (call_ctx c, ua) = Inr (cs1, (ctx1, ub))
           \<and> scope cx1 = scope ctx1)"
proof -
  from assms obtain p c d ua cs1 ctx1 ub where
    a: "displayable_arguments env (Block keyword cs kprepared) cfg p cx u = Inr c" and
    ch: "execute_children env cs (call_ctx c, ua) = Inr (cs1, (ctx1, ub))" and
    f: "displayable_finish env cfg (call_widget_id c) (call_transform c) d cx ctx1 ub = Inr (cx1, u1)"
    by (rule execute_SLDisplayable_Inr) blast
  from displayable_finish_appends[OF f] obtain d1 where
    cx1: "cx1 = cx\<lparr>scope := scope ctx1, children := children cx @ [d1]\<rparr>" by blast
  from displayable_arguments_ctx[OF a] have
    c: "scope (call_ctx c) = scope cx" "children (call_ctx c) = []" by simp_all
  have d: "keywords_dict (derive_context cx) = []" "children (derive_context cx) = []"
    by (simp_all add: derive_context_def)
  from cx1 have 1: "\<exists>d. children cx1 = children cx @ [d]" by simp
  from cx1 have 2: "keywords_dict cx1 = keywords_dict cx" "style_prefix cx1 = style_prefix cx"
    "scope cx1 = scope ctx1" by simp_all
  from a c ch 2(3) have 3: "\<exists>p c ua cs1 ctx1 ub.
             displayable_arguments env (Block keyword cs kprepared) cfg p cx u = Inr c
           \<and> scope (call_ctx c) = scope cx
           \<and> children (call_ctx c) = []
           \<and> execute_children env cs (call_ctx c, ua) = Inr (cs1, (ctx1, ub))
           \<and> scope cx1 = scope ctx1" by blast
  from 1 2 d 3 show ?thesis by simp
qed

theorem Displayable_execute_frame_witness:
  "execute (demo_env []) vbox_prepared (caller_context, demo_ui) =
     Inr (vbox_prepared, (caller_context_after, demo_ui))
   \<and> (\<exists>d. children caller_context_after = children caller_context @ [d])
   \<and> keywords_dict caller_context_after = keywords_dict caller_context
   \<and> style_prefix caller_context_after = style_prefix caller_context"
proof -
  have e: "execute (demo_env []) vbox_prepared (caller_context, demo_ui) =
     Inr (vbox_prepared, (caller_context_after, demo_ui))"
    by code_simp
  note t = Displayable_execute_frame [OF e [unfolded vbox_prepared_def]]
  from t have "\<exists>d. children caller_context_after = children caller_context @ [d]"
    by (rule conjunct1)
  moreover from t have "keywords_dict caller_context_after = keywords_dict caller_context"
    by (simp only:)
  moreover from t have "style_prefix caller_context_after = style_prefix caller_context"
    by (simp only:)
  ultimately show ?thesis using e by (simp only: simp_thms)
qed

section \<open>For nodes\<close>

text \<open>The loop over a list is the loop over its front followed by the loop over its rest.\<close>

lemma execute_for_append:
  "execute_for env v cs (xs @ ys) st =
     (case execute_for env v cs xs st of
        Inl e \<Rightarrow> Inl e
      | Inr (cs1, st1) \<Rightarrow> execute_for env v cs1 ys st1)"
proof (induction xs arbitrary: cs st)
  case Nil
  then show ?case by simp
next
  case (Cons x xs)
  obtain cx u where st: "st = (cx, u)" by (cases st)
  show ?case
  proof (cases "execute_children env cs (cx\<lparr>scope := AList.update v x (scope cx)\<rparr>, u)")
    case (Inl e)
    then show ?thesis by (simp add: st)
  next
    case (Inr r)
    obtain cs1 st1 where "r = (cs1, st1)" by (cases r)
    with Inr Cons.IH [of cs1 st1] show ?thesis by (simp add: st)
  qed
qed










section \<open>prepare, called again\<close>

text \<open>\<^verbatim>\<open>prepare\<close> reads the declared fields only and returns a prepared tree as it is.\<close>

lemma prepare_idempotent:
  "\<forall>n1. prepare env n = Inr n1 \<longrightarrow> prepare env n1 = Inr n1"
  "\<forall>b1. SLBlock_prepare env blk = Inr b1 \<longrightarrow> SLBlock_prepare env b1 = Inr b1"
  "\<forall>cs1. prepare_children env cs = Inr cs1 \<longrightarrow> prepare_children env cs1 = Inr cs1"
  "\<forall>es1 conds. prepare_entries env es = Inr (es1, conds)
      \<longrightarrow> prepare_entries env es1 = Inr (es1, conds)"
proof (induct env n and env blk and env cs and env es
    rule: prepare_SLBlock_prepare_prepare_children_prepare_entries.induct)
  case (1 env keyword cs prepared)
  show ?case
  proof (intro allI impI)
    fix b1
    assume a: "SLBlock_prepare env (Block keyword cs prepared) = Inr b1"
    then obtain cs1 kv kk ke where
      c: "prepare_children env cs = Inr cs1" and
      k: "prepare_keyword env keyword ([], [], []) = Inr (kv, kk, ke)" and
      b1: "b1 = Block keyword cs1
             (Some (if kv \<noteq> [] then Some kv else None,
                    if kk \<noteq> [] then Some (compile_expr (ast_Dict kk ke)) else None))"
      by (simp split: sum.splits prod.splits)
    from "1.hyps" c have "prepare_children env cs1 = Inr cs1" by blast
    with k b1 show "SLBlock_prepare env b1 = Inr b1" by simp
  qed
next
  case (2 env)
  show ?case by simp
next
  case (3 env i rest)
  show ?case
  proof (intro allI impI)
    fix cs1
    assume a: "prepare_children env (i # rest) = Inr cs1"
    then obtain i1 rest1 where
      e1: "prepare env i = Inr i1" and e2: "prepare_children env rest = Inr rest1"
      and cs1: "cs1 = i1 # rest1"
      by (simp split: sum.splits)
    from "3.hyps"(1) e1 have "prepare env i1 = Inr i1" by blast
    moreover from "3.hyps"(2)[OF e1] e2 have "prepare_children env rest1 = Inr rest1" by blast
    ultimately show "prepare_children env cs1 = Inr cs1" using cs1 by simp
  qed
next
  case (4 env)
  show ?case by simp
next
  case (5 env cond blk rest)
  show ?case
  proof (intro allI impI)
    fix es1 conds
    assume a: "prepare_entries env ((cond, blk) # rest) = Inr (es1, conds)"
    let ?c = "case cond of None \<Rightarrow> Inr None
              | Some src \<Rightarrow> (case py_compile_eval env src of Inl e \<Rightarrow> Inl e | Inr c \<Rightarrow> Inr (Some c))"
    from a obtain c blk1 rest1 conds1 where
      e0: "?c = Inr c" and
      e1: "SLBlock_prepare env blk = Inr blk1" and
      e2: "prepare_entries env rest = Inr (rest1, conds1)" and
      r: "es1 = (cond, blk1) # rest1" "conds = c # conds1"
      by (simp split: sum.splits prod.splits)
    from "5.hyps"(1)[OF e0] e1 have "SLBlock_prepare env blk1 = Inr blk1" by blast
    moreover from "5.hyps"(2)[OF e0 e1] e2 have "prepare_entries env rest1 = Inr (rest1, conds1)"
      by blast
    ultimately show "prepare_entries env es1 = Inr (es1, conds)" using e0 r by simp
  qed
next
  case (6 env blk)
  show ?case
  proof (intro allI impI)
    fix n1
    assume "prepare env (SLBlock blk) = Inr n1"
    then obtain blk1 where e: "SLBlock_prepare env blk = Inr blk1" and n1: "n1 = SLBlock blk1"
      by (simp split: sum.splits)
    from "6.hyps" e have "SLBlock_prepare env blk1 = Inr blk1" by blast
    with n1 show "prepare env n1 = Inr n1" by simp
  qed
next
  case (7 env blk cfg positional prepared)
  show ?case
  proof (intro allI impI)
    fix n1
    assume "prepare env (SLDisplayable blk cfg positional prepared) = Inr n1"
    then obtain blk1 exprs vals he hv where
      e: "SLBlock_prepare env blk = Inr blk1" and
      p: "prepare_positional env positional ([], [], False, False) = Inr (exprs, vals, he, hv)" and
      n1: "n1 = SLDisplayable blk1 cfg positional
                  (Some (if hv then Some vals else None,
                         if he then Some (compile_expr (ast_Tuple exprs)) else None))"
      by (simp split: sum.splits prod.splits)
    from "7.hyps" e have "SLBlock_prepare env blk1 = Inr blk1" by blast
    with p n1 show "prepare env n1 = Inr n1" by simp
  qed
next
  case (8 env serial entries prepared_entries)
  show ?case
  proof (intro allI impI)
    fix n1
    assume "prepare env (SLIf serial entries prepared_entries) = Inr n1"
    then obtain es1 conds where e: "prepare_entries env entries = Inr (es1, conds)"
      and n1: "n1 = SLIf serial es1 (Some conds)"
      by (simp split: sum.splits prod.splits)
    from "8.hyps" e have "prepare_entries env es1 = Inr (es1, conds)" by blast
    with n1 show "prepare env n1 = Inr n1" by simp
  qed
next
  case (9 env blk variable expression prepared)
  show ?case
  proof (intro allI impI)
    fix n1
    assume a: "prepare env (SLFor blk variable expression prepared) = Inr n1"
    then obtain node where c: "py_compile env expression = Inr node"
      by (simp split: sum.splits)
    let ?v = "if is_constant env node
              then (case py_eval_bytecode env (compile_expr node) None None of
                      Inl e \<Rightarrow> Inl e | Inr v \<Rightarrow> Inr (v, None))
              else Inr (VNone, Some (compile_expr node))"
    from a c obtain p blk1 where
      v: "?v = Inr p" and
      e: "SLBlock_prepare env blk = Inr blk1" and
      n1: "n1 = SLFor blk1 variable expression (Some p)"
      by (simp split: sum.splits)
    from "9.hyps"[OF c v] e have "SLBlock_prepare env blk1 = Inr blk1" by blast
    with c v n1 show "prepare env n1 = Inr n1" by simp
  qed
next
  case (10 env code)
  show ?case by simp
next
  case (11 env serial)
  show ?case by simp
next
  case (12 env variable expression expr)
  show ?case by (auto split: sum.splits)
qed

text \<open>
  C9. With the declared expressions and the environment unchanged, a second \<^verbatim>\<open>prepare\<close>
  of a prepared tree succeeds and returns the same tree, so \<^verbatim>\<open>execute\<close> and
  \<^verbatim>\<open>keywords\<close> after two calls of \<^verbatim>\<open>prepare\<close> give what they give after one.
\<close>

theorem prepare_twice:
  assumes "prepare env n = Inr n1"
  shows "\<exists>n2. prepare env n1 = Inr n2 \<and> n2 = n1
           \<and> execute env n2 st = execute env n1 st
           \<and> keywords_node env n2 cx = keywords_node env n1 cx"
  using prepare_idempotent(1) [of env n] assms by simp

theorem prepare_twice_witness:
  "prepare (demo_env [(''y'', VInt 7)]) screen_tree = Inr screen_tree_prepared
   \<and> (\<exists>n2. prepare (demo_env [(''y'', VInt 7)]) screen_tree_prepared = Inr n2
          \<and> n2 = screen_tree_prepared
          \<and> execute (demo_env [(''y'', VInt 7)]) n2 (SLContext_init None, demo_ui)
              = execute (demo_env [(''y'', VInt 7)]) screen_tree_prepared (SLContext_init None, demo_ui)
          \<and> keywords_node (demo_env [(''y'', VInt 7)]) n2 (SLContext_init None :: widget SLContext)
              = keywords_node (demo_env [(''y'', VInt 7)]) screen_tree_prepared (SLContext_init None))"
proof -
  have e: "prepare (demo_env [(''y'', VInt 7)]) screen_tree = Inr screen_tree_prepared"
    by code_simp
  from prepare_twice [OF e, of "(SLContext_init None, demo_ui)" "SLContext_init None"] e
  show ?thesis by (simp only: simp_thms)
qed

section \<open>Positional arguments\<close>

text \<open>
  What the loop over \<^verbatim>\<open>self.positional\<close> returns when every expression compiles and
  every constant evaluates: a placeholder \<^verbatim>\<open>0\<close> or the parsed expression per slot, and
  the value or the sentinel per slot.
\<close>

lemma prepare_positional_result:
  assumes "\<forall>a\<in>set ps. syntax_error env a = None"
    and "\<forall>a\<in>set ps. is_constant env (ast_Parsed a) \<longrightarrow> eval_parsed env a None None = Inr (cv a)"
  shows "prepare_positional env ps (exprs, vals, he, hv) =
           Inr (exprs @ map (\<lambda>a. if is_constant env (ast_Parsed a) then ast_Num 0 else ast_Parsed a) ps,
                vals @ map (\<lambda>a. if is_constant env (ast_Parsed a) then Constant (cv a)
                                 else use_expression) ps,
                he \<or> (\<exists>a\<in>set ps. \<not> is_constant env (ast_Parsed a)),
                hv \<or> (\<exists>a\<in>set ps. is_constant env (ast_Parsed a)))"
  using assms
proof (induction ps arbitrary: exprs vals he hv)
  case Nil
  then show ?case by simp
next
  case (Cons a ps)
  then show ?case
    by (simp add: py_compile_def py_eval_bytecode_def compile_expr_def)
qed

lemma eval_asts_placeholders:
  assumes "\<forall>a\<in>set ps. \<not> is_constant env (ast_Parsed a) \<longrightarrow> eval_parsed env a g l = Inr (dv a)"
  shows "eval_asts env (map (\<lambda>a. if is_constant env (ast_Parsed a) then ast_Num 0 else ast_Parsed a) ps) g l
           = Inr (map (\<lambda>a. if is_constant env (ast_Parsed a) then VInt 0 else dv a) ps)"
  using assms by (induction ps) simp_all

lemma recombine_slots:
  "map (\<lambda>(a, b). case a of use_expression \<Rightarrow> b | Constant v \<Rightarrow> v)
     (zip (map (\<lambda>a. if c a then Constant (cv a) else use_expression) ps)
          (map (\<lambda>a. if c a then VInt 0 else dv a) ps))
   = map (\<lambda>a. if c a then cv a else dv a) ps"
  by (induction ps) simp_all

lemma resolve_positional_mixed:
  assumes "vals = a0 # ps0"
    and "py_eval_bytecode env code (Some sc) None = Inr values"
    and "iter_values values = Inr vs"
  shows "resolve_positional env (Some vals) (Some code) sc =
           Inr (ListObject
             (map (\<lambda>(a, b). case a of use_expression \<Rightarrow> b | Constant v \<Rightarrow> v) (zip vals vs)))"
  using assms by (simp add: resolve_positional_def)

text \<open>
  C7. For a displayable whose positional expressions mix constants and dynamic
  expressions, \<^verbatim>\<open>execute\<close> evaluates the combined unit once and takes each slot from
  its result if the slot is dynamic and from the precomputed value otherwise: the list is,
  slot by slot in declared order, the value of the declared expression (\<open>cv\<close> for a
  constant, \<open>dv\<close> for a dynamic one), and the construction call gets that list, after the
  context when \<^verbatim>\<open>pass_context\<close> is set.
\<close>

theorem mixed_positional_in_declared_order:
  assumes "\<forall>a\<in>set ps. syntax_error env a = None"
    and "\<forall>a\<in>set ps. is_constant env (ast_Parsed a) \<longrightarrow> eval_parsed env a None None = Inr (cv a)"
    and "\<forall>a\<in>set ps. \<not> is_constant env (ast_Parsed a)
           \<longrightarrow> eval_parsed env a (Some (scope cx)) None = Inr (dv a)"
    and "\<exists>a\<in>set ps. is_constant env (ast_Parsed a)"
    and "\<exists>a\<in>set ps. \<not> is_constant env (ast_Parsed a)"
    and "prepare env (SLDisplayable blk cfg ps old) = Inr n1"
  shows "\<exists>blk1 vals code.
           n1 = SLDisplayable blk1 cfg ps (Some (Some vals, Some code))
         \<and> resolve_positional env (Some vals) (Some code) (scope cx) =
             Inr (ListObject (map (\<lambda>a. if is_constant env (ast_Parsed a) then cv a else dv a) ps))
         \<and> (\<forall>u c. displayable_arguments env blk1 cfg (Some vals, Some code) cx u = Inr c \<longrightarrow>
               call_positional c =
                 (if d_pass_context cfg
                  then [VContext (scope (call_ctx c)) (style_prefix (call_ctx c))] else [])
                 @ map (\<lambda>a. if is_constant env (ast_Parsed a) then cv a else dv a) ps)"
proof -
  let ?c = "\<lambda>a. is_constant env (ast_Parsed a)"
  let ?exprs = "map (\<lambda>a. if ?c a then ast_Num 0 else ast_Parsed a) ps"
  let ?vals = "map (\<lambda>a. if ?c a then Constant (cv a) else use_expression) ps"
  let ?code = "compile_expr (ast_Tuple ?exprs)"
  let ?final = "map (\<lambda>a. if ?c a then cv a else dv a) ps"
  have pp: "prepare_positional env ps ([], [], False, False) = Inr (?exprs, ?vals, True, True)"
    using prepare_positional_result [OF assms(1,2), of "[]" "[]" False False] assms(4,5)
    by simp
  from assms(6) pp obtain blk1 where
    n1: "n1 = SLDisplayable blk1 cfg ps (Some (Some ?vals, Some ?code))"
    by (simp split: sum.splits) blast
  from assms(4) obtain a0 ps0 where ne: "?vals = a0 # ps0"
    by (cases ps) auto
  have ev: "py_eval_bytecode env ?code (Some (scope cx)) None =
              Inr (VTuple (map (\<lambda>a. if ?c a then VInt 0 else dv a) ps))"
    using eval_asts_placeholders [of ps env "Some (scope cx)" None dv] assms(3)
    by (simp add: py_eval_bytecode_def compile_expr_def)
  have rp: "resolve_positional env (Some ?vals) (Some ?code) (scope cx) = Inr (ListObject ?final)"
    using resolve_positional_mixed [OF ne ev, of "map (\<lambda>a. if ?c a then VInt 0 else dv a) ps"]
    by (simp only: iter_values.simps recombine_slots)
  have da: "call_positional c =
                 (if d_pass_context cfg
                  then [VContext (scope (call_ctx c)) (style_prefix (call_ctx c))] else [])
                 @ ?final"
    if "displayable_arguments env blk1 cfg (Some ?vals, Some ?code) cx u = Inr c" for u c
    using that
  proof (rule displayable_arguments_Inr)
    fix positional ctx positional1 keywords1 keywords3 args
    assume "resolve_positional env (Some ?vals) (Some ?code) (scope cx) = Inr positional"
      and i: "(if d_pass_context cfg
               then insert_first (VContext (scope ctx) (style_prefix ctx)) positional
               else Inr positional) = Inr positional1"
      and u: "unpack positional1 = Inr args"
      and c: "c = \<lparr>call_positional = args, call_keywords = keywords3,
          call_widget_id = fst (pop_reserved (scope_keyword cfg ctx keywords1)),
          call_transform = fst (snd (pop_reserved (scope_keyword cfg ctx keywords1))),
          call_ctx = ctx\<lparr>keywords_dict := keywords3\<rparr>,
          call_stored = stored_values positional1 (Some ?vals)\<rparr>"
    with rp have p: "positional = ListObject ?final" by simp
    show ?thesis
    proof (cases "d_pass_context cfg")
      case True
      with i p u c show ?thesis by auto
    next
      case False
      with i p u c show ?thesis by auto
    qed
  qed
  from n1 rp da show ?thesis by blast
qed

theorem mixed_positional_in_declared_order_witness:
  "prepare (demo_env []) mixed_text = Inr mixed_text_prepared
   \<and> resolve_positional (demo_env [])
         (Some [Constant (VInt 1), use_expression, Constant (VInt 2)])
         (Some (Code (ast_Tuple [ast_Num 0, ast_Parsed ''y'', ast_Num 0]))) (scope y_context)
       = Inr (ListObject [VInt 1, VInt 7, VInt 2])"
proof -
  let ?env = "demo_env [] :: widget env"
  let ?ps = "[''1'', ''y'', ''2'']"
  let ?cv = "\<lambda>a. if a = ''1'' then VInt 1 else VInt 2"
  let ?dv = "\<lambda>a :: string. VInt 7"
  have e: "prepare ?env mixed_text = Inr mixed_text_prepared" by code_simp
  have c1: "is_constant ?env (ast_Parsed ''1'')" by code_simp
  have c2: "is_constant ?env (ast_Parsed ''2'')" by code_simp
  have cy: "\<not> is_constant ?env (ast_Parsed ''y'')" by code_simp
  have v1: "eval_parsed ?env ''1'' None None = Inr (VInt 1)" by code_simp
  have v2: "eval_parsed ?env ''2'' None None = Inr (VInt 2)" by code_simp
  have vy: "eval_parsed ?env ''y'' (Some (scope y_context)) None = Inr (VInt 7)" by code_simp
  have h1: "\<forall>a\<in>set ?ps. syntax_error ?env a = None" by (simp add: demo_env_def)
  have h2: "\<forall>a\<in>set ?ps. is_constant ?env (ast_Parsed a) \<longrightarrow> eval_parsed ?env a None None = Inr (?cv a)"
    using v1 v2 cy by simp
  have h3: "\<forall>a\<in>set ?ps. \<not> is_constant ?env (ast_Parsed a)
              \<longrightarrow> eval_parsed ?env a (Some (scope y_context)) None = Inr (?dv a)"
    using c1 c2 vy by simp
  have h4: "\<exists>a\<in>set ?ps. is_constant ?env (ast_Parsed a)" using c1 by simp
  have h5: "\<exists>a\<in>set ?ps. \<not> is_constant ?env (ast_Parsed a)" using cy by simp
  from mixed_positional_in_declared_order [OF h1 h2 h3 h4 h5 e [unfolded mixed_text_def]]
  obtain blk1 vals code where
    n: "mixed_text_prepared = SLDisplayable blk1 (config ''text'') ?ps (Some (Some vals, Some code))"
    and r: "resolve_positional ?env (Some vals) (Some code) (scope y_context) =
              Inr (ListObject (map (\<lambda>a. if is_constant ?env (ast_Parsed a) then ?cv a else ?dv a) ?ps))"
    by blast
  from n have "vals = [Constant (VInt 1), use_expression, Constant (VInt 2)]"
    "code = Code (ast_Tuple [ast_Num 0, ast_Parsed ''y'', ast_Num 0])"
    by (simp_all add: mixed_text_prepared_def)
  with r c1 c2 cy e show ?thesis by simp
qed

section \<open>Reserved keywords and widget properties\<close>

text \<open>
  C8, as the claim states it: \<^verbatim>\<open>id\<close> and \<^verbatim>\<open>at\<close> never reach the construction call.
  The widget properties are merged after the two pops, so with the entry
  \<^verbatim>\<open>"w": {at: t}\<close> the node with \<^verbatim>\<open>id "w"\<close> is constructed with the keyword \<^verbatim>\<open>at\<close>.
\<close>

theorem override_supplies_at_counterexample:
  "execute (demo_env []) id_text_prepared (SLContext_init None, at_ui) =
     Inr (id_text_prepared,
          (\<lparr>scope = [],
            children = [Widget ''text'' [] [(''color'', VStr ''red''), (''at'', VObject ''t'')] []],
            keywords_dict = [], style_prefix = []\<rparr>,
           at_ui\<lparr>widgets :=
             [(VStr ''w'',
               Widget ''text'' [] [(''color'', VStr ''red''), (''at'', VObject ''t'')] [])]\<rparr>))
   \<and> map_of [(''color'', VStr ''red''), (''at'', VObject ''t'')] ''at'' = Some (VObject ''t'')"
  by code_simp

text \<open>
  C8, amended. The widget id and the transform are the values of \<^verbatim>\<open>id\<close> and \<^verbatim>\<open>at\<close>
  in the keyword set the node assembled (\<^verbatim>\<open>None\<close> when absent); the construction call
  gets that keyword set without these two keys, overridden by the entry the widget
  properties have for the widget id. So the node's own \<^verbatim>\<open>id\<close> and \<^verbatim>\<open>at\<close> are not
  passed, an override wins over any keyword of the node, and a key \<^verbatim>\<open>id\<close> or \<^verbatim>\<open>at\<close>
  reaches the call only from the override entry itself.
\<close>

theorem reserved_keywords_and_overrides:
  assumes "displayable_arguments env blk cfg p cx u = Inr c"
  shows "\<exists>ctx kw1.
           SLBlock_keywords env blk (derive_context cx) = Inr ctx
         \<and> style_keyword env cfg ctx = Inr kw1
         \<and> call_widget_id c =
             (case map_of (scope_keyword cfg ctx kw1) ''id'' of None \<Rightarrow> VNone | Some v \<Rightarrow> v)
         \<and> call_transform c =
             (case map_of (scope_keyword cfg ctx kw1) ''at'' of None \<Rightarrow> VNone | Some v \<Rightarrow> v)
         \<and> map_of (call_keywords c) =
             (map_of (scope_keyword cfg ctx kw1))(''id'' := None, ''at'' := None)
               ++ (case map_of (widget_properties u) (call_widget_id c) of
                     None \<Rightarrow> Map.empty
                   | Some props \<Rightarrow> map_of props)"
proof -
  obtain pv pe where p: "p = (pv, pe)" by (cases p)
  from assms [unfolded p] obtain ctx kw1 kw3 where
    k: "SLBlock_keywords env blk (derive_context cx) = Inr ctx" and
    s: "style_keyword env cfg ctx = Inr kw1" and
    w: "widget_overrides u (fst (pop_reserved (scope_keyword cfg ctx kw1)))
          (snd (snd (pop_reserved (scope_keyword cfg ctx kw1)))) = Inr kw3" and
    c: "call_keywords c = kw3"
       "call_widget_id c = fst (pop_reserved (scope_keyword cfg ctx kw1))"
       "call_transform c = fst (snd (pop_reserved (scope_keyword cfg ctx kw1)))"
    by (rule displayable_arguments_Inr) simp
  let ?kw = "scope_keyword cfg ctx kw1"
  have i: "fst (pop_reserved ?kw) = (case map_of ?kw ''id'' of None \<Rightarrow> VNone | Some v \<Rightarrow> v)"
    by (simp add: pop_reserved_def dict_pop_def)
  have t: "fst (snd (pop_reserved ?kw)) = (case map_of ?kw ''at'' of None \<Rightarrow> VNone | Some v \<Rightarrow> v)"
    by (simp add: pop_reserved_def dict_pop_def)
  have r: "map_of (snd (snd (pop_reserved ?kw))) = (map_of ?kw)(''id'' := None, ''at'' := None)"
    by (simp add: pop_reserved_def dict_pop_def delete_conv')
  from w have m: "map_of kw3 = map_of (snd (snd (pop_reserved ?kw)))
        ++ (case map_of (widget_properties u) (fst (pop_reserved ?kw)) of
              None \<Rightarrow> Map.empty | Some props \<Rightarrow> map_of props)"
    by (auto simp: widget_overrides_def dict_update_def merge_conv' split: if_splits option.splits)
  from k s c i t r m show ?thesis by auto
qed

theorem reserved_keywords_and_overrides_witness:
  "displayable_arguments (demo_env [])
       (Block [(''id'', ''\"w\"''), (''color'', ''\"red\"'')] []
          (Some (Some [(''id'', VStr ''w''), (''color'', VStr ''red'')], None)))
       (config ''text'') (None, None) (SLContext_init None) blue_ui = Inr blue_call
   \<and> execute (demo_env []) id_text_prepared (SLContext_init None, blue_ui) =
       Inr (id_text_prepared,
            (\<lparr>scope = [], children = [Widget ''text'' [] [(''color'', VStr ''blue'')] []],
              keywords_dict = [], style_prefix = []\<rparr>,
             blue_ui\<lparr>widgets := [(VStr ''w'', Widget ''text'' [] [(''color'', VStr ''blue'')] [])]\<rparr>))
   \<and> map_of (call_keywords blue_call) ''color'' = Some (VStr ''blue'')
   \<and> map_of (call_keywords blue_call) ''id'' = None
   \<and> map_of (call_keywords blue_call) ''at'' = None
   \<and> (\<exists>ctx kw1.
          SLBlock_keywords (demo_env [])
            (Block [(''id'', ''\"w\"''), (''color'', ''\"red\"'')] []
               (Some (Some [(''id'', VStr ''w''), (''color'', VStr ''red'')], None)))
            (derive_context (SLContext_init None)) = Inr (ctx :: widget SLContext)
        \<and> style_keyword (demo_env []) (config ''text'') ctx = Inr kw1
        \<and> call_widget_id blue_call =
            (case map_of (scope_keyword (config ''text'') ctx kw1) ''id'' of
               None \<Rightarrow> VNone | Some v \<Rightarrow> v)
        \<and> call_transform blue_call =
            (case map_of (scope_keyword (config ''text'') ctx kw1) ''at'' of
               None \<Rightarrow> VNone | Some v \<Rightarrow> v)
        \<and> map_of (call_keywords blue_call) =
            (map_of (scope_keyword (config ''text'') ctx kw1))(''id'' := None, ''at'' := None)
              ++ (case map_of (widget_properties blue_ui) (call_widget_id blue_call) of
                    None \<Rightarrow> Map.empty
                  | Some props \<Rightarrow> map_of props))"
proof -
  have a: "displayable_arguments (demo_env [])
       (Block [(''id'', ''\"w\"''), (''color'', ''\"red\"'')] []
          (Some (Some [(''id'', VStr ''w''), (''color'', VStr ''red'')], None)))
       (config ''text'') (None, None) (SLContext_init None) blue_ui = Inr blue_call"
    by code_simp
  have e: "execute (demo_env []) id_text_prepared (SLContext_init None, blue_ui) =
       Inr (id_text_prepared,
            (\<lparr>scope = [], children = [Widget ''text'' [] [(''color'', VStr ''blue'')] []],
              keywords_dict = [], style_prefix = []\<rparr>,
             blue_ui\<lparr>widgets := [(VStr ''w'', Widget ''text'' [] [(''color'', VStr ''blue'')] [])]\<rparr>))"
    by code_simp
  have k: "map_of (call_keywords blue_call) ''color'' = Some (VStr ''blue'')"
    "map_of (call_keywords blue_call) ''id'' = None"
    "map_of (call_keywords blue_call) ''at'' = None"
    by (simp_all add: blue_call_def)
  note t = reserved_keywords_and_overrides [OF a]
  from a e k t show ?thesis by (simp only: simp_thms)
qed

section \<open>Constant arguments and the scope\<close>

lemma with_scope_simps [simp]:
  "with_scope s (Inl e) = Inl e"
  "with_scope s (Inr c) = Inr (c\<lparr>scope := s\<rparr>)"
  by (simp_all add: with_scope_def)

lemma update_keywords_scope:
  "update_keywords env (kv, None) (cx\<lparr>scope := s\<rparr>) = with_scope s (update_keywords env (kv, None) cx)"
  by (simp add: update_keywords_def Let_def split: option.splits)

lemma pop_style_group_scope:
  "pop_style_group (cx\<lparr>scope := s\<rparr>) = with_scope s (pop_style_group cx)"
  by (simp add: pop_style_group_def split: prod.splits option.splits pyval.splits)

lemma keywords_scope_independent:
  "constant_keywords n \<longrightarrow>
     keywords_node env n (cx\<lparr>scope := s\<rparr>) = with_scope s (keywords_node env n cx)"
  "constant_keywords_block blk \<longrightarrow>
     SLBlock_keywords env blk (cx\<lparr>scope := s\<rparr>) = with_scope s (SLBlock_keywords env blk cx)"
  "constant_keywords_children cs \<longrightarrow>
     keywords_children env cs (cx\<lparr>scope := s\<rparr>) = with_scope s (keywords_children env cs cx)"
  "list_all (\<lambda>c. c = None) conds \<and> constant_keywords_entries es \<longrightarrow>
     keywords_entries env conds es (cx\<lparr>scope := s\<rparr>) = with_scope s (keywords_entries env conds es cx)"
proof (induct env n cx and env blk cx and env cs cx and env conds es cx
    rule: keywords_node_SLBlock_keywords_keywords_children_keywords_entries.induct)
  case (1 env keyword cs prepared cx)
  show ?case
  proof
    assume u: "constant_keywords_block (Block keyword cs prepared)"
    show "SLBlock_keywords env (Block keyword cs prepared) (cx\<lparr>scope := s\<rparr>) =
            with_scope s (SLBlock_keywords env (Block keyword cs prepared) cx)"
    proof (cases prepared)
      case None
      then show ?thesis by simp
    next
      case (Some p)
      with u obtain kv where p: "p = (kv, None)" by (cases p) simp
      note uk = update_keywords_scope [where env = env and kv = kv and cx = cx and s = s]
      show ?thesis
      proof (cases "update_keywords env p cx")
        case (Inl e)
        with Some p uk show ?thesis by simp
      next
        case (Inr cx1)
        note e1 = this
        show ?thesis
        proof (cases "pop_style_group cx1")
          case (Inl e)
          with Some p e1 uk show ?thesis by (simp add: pop_style_group_scope)
        next
          case (Inr cx2)
          from "1.hyps"[OF Some e1 Inr] u
          have "keywords_children env cs (cx2\<lparr>scope := s\<rparr>) = with_scope s (keywords_children env cs cx2)"
            by simp
          with Some p e1 Inr uk show ?thesis
            by (simp add: pop_style_group_scope)
        qed
      qed
    qed
  qed
next
  case (2 env cx)
  show ?case by simp
next
  case (3 env i rest cx)
  show ?case
  proof
    assume u: "constant_keywords_children (i # rest)"
    with "3.hyps"(1) have 1: "keywords_node env i (cx\<lparr>scope := s\<rparr>) = with_scope s (keywords_node env i cx)"
      by simp
    show "keywords_children env (i # rest) (cx\<lparr>scope := s\<rparr>) =
            with_scope s (keywords_children env (i # rest) cx)"
    proof (cases "keywords_node env i cx")
      case (Inl e)
      with 1 show ?thesis by simp
    next
      case (Inr cx1)
      from "3.hyps"(2)[OF Inr] u
      have "keywords_children env rest (cx1\<lparr>scope := s\<rparr>) = with_scope s (keywords_children env rest cx1)"
        by simp
      with 1 Inr show ?thesis by simp
    qed
  qed
next
  case (4 env entries cx)
  show ?case by simp
next
  case (5 env cond conds cx)
  show ?case by simp
next
  case (6 env cond conds src blk entries cx)
  show ?case
  proof
    assume u: "list_all (\<lambda>c. c = None) (cond # conds) \<and> constant_keywords_entries ((src, blk) # entries)"
    then have c: "cond = None" and b: "constant_keywords_block blk" by simp_all
    have h: "condition_holds env cond (scope cx) = Inr True" by (simp add: c condition_holds_def)
    from "6.hyps"(1)[OF h] b
    have "SLBlock_keywords env blk (cx\<lparr>scope := s\<rparr>) = with_scope s (SLBlock_keywords env blk cx)"
      by simp
    then show "keywords_entries env (cond # conds) ((src, blk) # entries) (cx\<lparr>scope := s\<rparr>) =
            with_scope s (keywords_entries env (cond # conds) ((src, blk) # entries) cx)"
      by (simp add: c condition_holds_def)
  qed
next
  case (7 env blk cx)
  then show ?case by (simp only: keywords_node.simps constant_keywords.simps)
next
  case (8 env blk cfg positional prepared cx)
  then show ?case by (simp only: keywords_node.simps constant_keywords.simps)
next
  case (9 env serial entries prepared_entries cx)
  show ?case
  proof (cases prepared_entries)
    case None
    then show ?thesis by simp
  next
    case (Some conds)
    with "9.hyps"[OF Some] show ?thesis by simp
  qed
next
  case (10 env blk variable expression prepared cx)
  show ?case by simp
next
  case (11 env code cx)
  show ?case by simp
next
  case (12 env serial cx)
  show ?case by simp
next
  case (13 env variable expression expr cx)
  show ?case by simp
qed

text \<open>
  C2, as the claim states it: with only constant expressions, two calls with different
  scopes construct with the same arguments. A displayable built with \<^verbatim>\<open>scope=True\<close> gets
  the scope itself as the keyword \<^verbatim>\<open>scope\<close>, so the keyword arguments differ.
\<close>

theorem scope_keyword_counterexample:
  "prepare (demo_env []) scope_text =
     Inr (SLDisplayable scope_text_block ((config ''text'')\<lparr>d_scope := True\<rparr>) [''1'']
            (Some (Some [Constant (VInt 1)], None)))
   \<and> construction_arguments
         (displayable_arguments (demo_env []) scope_text_block
            ((config ''text'')\<lparr>d_scope := True\<rparr>) (Some [Constant (VInt 1)], None)
            (x_context 1) demo_ui)
       = Inr ([VInt 1], [(''color'', VStr ''red''), (''scope'', VDict [(''x'', VInt 1)])])
   \<and> construction_arguments
         (displayable_arguments (demo_env []) scope_text_block
            ((config ''text'')\<lparr>d_scope := True\<rparr>) (Some [Constant (VInt 1)], None)
            (x_context 2) demo_ui)
       = Inr ([VInt 1], [(''color'', VStr ''red''), (''scope'', VDict [(''x'', VInt 2)])])
   \<and> construction_arguments
         (displayable_arguments (demo_env []) scope_text_block
            ((config ''text'')\<lparr>d_scope := True\<rparr>) (Some [Constant (VInt 1)], None)
            (x_context 1) demo_ui)
       \<noteq> construction_arguments
         (displayable_arguments (demo_env []) scope_text_block
            ((config ''text'')\<lparr>d_scope := True\<rparr>) (Some [Constant (VInt 1)], None)
            (x_context 2) demo_ui)"
  by code_simp

lemma prepare_positional_constant:
  assumes "prepare_positional env ps (exprs, vals, he, hv) = Inr (exprs1, vals1, he1, hv1)"
    and "\<forall>a\<in>set ps. is_constant env (ast_Parsed a)"
  shows "he1 = he"
  using assms
proof (induction ps arbitrary: exprs vals he hv)
  case Nil
  then show ?case by simp
next
  case (Cons a ps)
  from Cons.prems obtain v where
    "prepare_positional env ps (exprs @ [ast_Num 0], vals @ [Constant v], he, True)
       = Inr (exprs1, vals1, he1, hv1)"
    by (simp add: py_compile_def split: option.splits sum.splits)
  with Cons.IH Cons.prems(2) show ?case by simp
qed

lemma prepare_keyword_constant:
  assumes "prepare_keyword env kw (kv, kk, ke) = Inr (kv1, kk1, ke1)"
    and "\<forall>x\<in>set kw. is_constant env (ast_Parsed (snd x))"
  shows "kk1 = kk"
  using assms
proof (induction kw arbitrary: kv kk ke)
  case Nil
  then show ?case by simp
next
  case (Cons x kw)
  obtain k expr where x: "x = (k, expr)" by (cases x)
  from Cons.prems obtain v where
    "prepare_keyword env kw (AList.update k v kv, kk, ke) = Inr (kv1, kk1, ke1)"
    by (simp add: x py_compile_def split: option.splits sum.splits)
  with Cons.IH Cons.prems(2) show ?case by simp
qed

lemma resolve_positional_constant:
  "resolve_positional env pv None s = resolve_positional env pv None s'"
  by (simp add: resolve_positional_def split: option.splits list.splits)

lemma derive_context_scope:
  "derive_context (cx\<lparr>scope := s\<rparr>) = (derive_context cx)\<lparr>scope := s\<rparr>"
  by (simp add: derive_context_def SLContext_init_def)

lemma style_keyword_scope:
  "style_keyword env cfg (ctx\<lparr>scope := s\<rparr>) = style_keyword env cfg ctx"
  by (simp add: style_keyword_def split: option.splits list.splits sum.splits)

lemma displayable_arguments_scope:
  assumes "\<not> d_scope cfg" and "\<not> d_pass_context cfg" and "constant_keywords_block blk"
  shows "construction_arguments (displayable_arguments env blk cfg (pv, None) (cx\<lparr>scope := s\<rparr>) u)
         = construction_arguments (displayable_arguments env blk cfg (pv, None) cx u)"
proof -
  have k: "SLBlock_keywords env blk (derive_context (cx\<lparr>scope := s\<rparr>))
             = with_scope s (SLBlock_keywords env blk (derive_context cx))"
    using keywords_scope_independent(2) [where blk = blk and env = env and cx = "derive_context cx" and s = s]
      assms(3)
    by (simp add: derive_context_scope)
  have r: "resolve_positional env pv None (scope (cx\<lparr>scope := s\<rparr>))
             = resolve_positional env pv None (scope cx)"
    by (rule resolve_positional_constant)
  show ?thesis
  proof (cases "SLBlock_keywords env blk (derive_context cx)")
    case (Inl e)
    with k r show ?thesis
      by (simp add: displayable_arguments_def construction_arguments_def split: sum.splits)
  next
    case (Inr ctx)
    with k r assms(1,2) show ?thesis
      by (simp add: displayable_arguments_def construction_arguments_def style_keyword_scope
          scope_keyword_def split: sum.splits prod.splits)
  qed
qed

text \<open>
  C2, amended. For a displayable whose positional and keyword expressions are all
  constant, that passes neither the scope nor the context to the construction function,
  and whose children contribute keywords without evaluating anything (no dynamic keyword
  and no condition is reached by the keywords traversal), two calls against contexts that
  differ in the scope only (with the same widget properties) construct with the same
  positional and keyword arguments, or raise the same error.
\<close>

theorem constant_arguments_scope_independent:
  assumes "prepare env (SLDisplayable (Block keyword cs0 kp0) cfg ps old)
             = Inr (SLDisplayable (Block keyword1 cs kp) cfg ps (Some p))"
    and "\<forall>a\<in>set ps. is_constant env (ast_Parsed a)"
    and "\<forall>ke\<in>set keyword. is_constant env (ast_Parsed (snd ke))"
    and "\<not> d_scope cfg" and "\<not> d_pass_context cfg"
    and "constant_keywords_children cs"
  shows "construction_arguments
           (displayable_arguments env (Block keyword1 cs kp) cfg p (cx\<lparr>scope := s1\<rparr>) u)
         = construction_arguments
           (displayable_arguments env (Block keyword1 cs kp) cfg p (cx\<lparr>scope := s2\<rparr>) u)"
proof -
  from assms(1) obtain exprs vals he hv where
    b: "SLBlock_prepare env (Block keyword cs0 kp0) = Inr (Block keyword1 cs kp)" and
    pp: "prepare_positional env ps ([], [], False, False) = Inr (exprs, vals, he, hv)" and
    p: "p = (if hv then Some vals else None, if he then Some (compile_expr (ast_Tuple exprs)) else None)"
    by (simp split: sum.splits prod.splits)
  from prepare_positional_constant [OF pp assms(2)] have "he = False" .
  with p obtain pv where p: "p = (pv, None)" by simp
  from b obtain kv kk ke where
    pk: "prepare_keyword env keyword ([], [], []) = Inr (kv, kk, ke)" and
    kp: "kp = Some (if kv \<noteq> [] then Some kv else None,
                    if kk \<noteq> [] then Some (compile_expr (ast_Dict kk ke)) else None)"
    by (simp split: sum.splits prod.splits)
  from prepare_keyword_constant [OF pk assms(3)] have "kk = []" .
  with kp assms(6) have c: "constant_keywords_block (Block keyword1 cs kp)" by simp
  from displayable_arguments_scope [OF assms(4,5) c, where env = env and pv = pv and cx = cx and s = s1 and u = u]
       displayable_arguments_scope [OF assms(4,5) c, where env = env and pv = pv and cx = cx and s = s2 and u = u]
  show ?thesis by (simp add: p)
qed

theorem constant_arguments_scope_independent_witness:
  "prepare (demo_env []) constant_text =
     Inr (SLDisplayable constant_text_block (config ''text'') [''1'']
            (Some (Some [Constant (VInt 1)], None)))
   \<and> construction_arguments
         (displayable_arguments (demo_env []) constant_text_block (config ''text'')
            (Some [Constant (VInt 1)], None) ((SLContext_init None)\<lparr>scope := [(''x'', VInt 1)]\<rparr>) demo_ui)
       = construction_arguments
         (displayable_arguments (demo_env []) constant_text_block (config ''text'')
            (Some [Constant (VInt 1)], None) ((SLContext_init None)\<lparr>scope := [(''x'', VInt 2)]\<rparr>) demo_ui)
   \<and> construction_arguments
         (displayable_arguments (demo_env []) constant_text_block (config ''text'')
            (Some [Constant (VInt 1)], None) ((SLContext_init None)\<lparr>scope := [(''x'', VInt 1)]\<rparr>) demo_ui)
       = Inr ([VInt 1], [(''color'', VStr ''red''), (''size'', VInt 2)])"
proof -
  let ?env = "demo_env [] :: widget env"
  let ?cs = "[SLIf 1 [(None, Block [(''size'', ''2'')] [] (Some (Some [(''size'', VInt 2)], None)))]
                (Some [None])]"
  have e: "prepare ?env
             (SLDisplayable
               (Block [(''color'', ''\"red\"'')]
                  [SLIf 1 [(None, Block [(''size'', ''2'')] [] None)] None] None)
               (config ''text'') [''1''] None) =
     Inr (SLDisplayable
            (Block [(''color'', ''\"red\"'')] ?cs (Some (Some [(''color'', VStr ''red'')], None)))
            (config ''text'') [''1''] (Some (Some [Constant (VInt 1)], None)))"
    by code_simp
  have c1: "is_constant ?env (ast_Parsed ''1'')" by code_simp
  have c2: "is_constant ?env (ast_Parsed ''\"red\"'')" by code_simp
  have h2: "\<forall>a\<in>set [''1'']. is_constant ?env (ast_Parsed a)" using c1 by simp
  have h3: "\<forall>ke\<in>set [(''color'', ''\"red\"'')]. is_constant ?env (ast_Parsed (snd ke))"
    using c2 by simp
  have h4: "\<not> d_scope (config ''text'')" by (simp add: config_def)
  have h5: "\<not> d_pass_context (config ''text'')" by (simp add: config_def)
  have h6: "constant_keywords_children ?cs" by simp
  have v: "construction_arguments
         (displayable_arguments ?env constant_text_block (config ''text'')
            (Some [Constant (VInt 1)], None) ((SLContext_init None)\<lparr>scope := [(''x'', VInt 1)]\<rparr>) demo_ui)
       = Inr ([VInt 1], [(''color'', VStr ''red''), (''size'', VInt 2)])"
    by code_simp
  note t = constant_arguments_scope_independent [OF e h2 h3 h4 h5 h6,
      where cx = "SLContext_init None" and ?s1.0 = "[(''x'', VInt 1)]"
        and ?s2.0 = "[(''x'', VInt 2)]" and u = demo_ui]
  from e t v show ?thesis by (simp only: constant_text_def constant_text_block_def simp_thms)
qed

end
